theory Spec2Isabelle
  imports Complex_Main "HOL-Library.Countable"
begin

section \<open>Roles and the role hierarchy\<close>

text \<open>
  \<^verbatim>\<open>UserRole = z.enum(['developer', 'designer', 'product-manager', 'stakeholder'])\<close>
  (shared types). The wire form of a role is its string.
\<close>

datatype UserRole = Developer | Designer | ProductManager | Stakeholder

fun role_string :: "UserRole \<Rightarrow> string" where
  "role_string Developer = ''developer''"
| "role_string Designer = ''designer''"
| "role_string ProductManager = ''product-manager''"
| "role_string Stakeholder = ''stakeholder''"

definition nativeEnum_role :: "string \<Rightarrow> UserRole option" where
  "nativeEnum_role s =
     (if s = ''developer'' then Some Developer
      else if s = ''designer'' then Some Designer
      else if s = ''product-manager'' then Some ProductManager
      else if s = ''stakeholder'' then Some Stakeholder
      else None)"

text \<open>
  \<^verbatim>\<open>AuthService.hasPermission\<close>: the table \<^verbatim>\<open>roleHierarchy\<close> and the comparison
  \<^verbatim>\<open>roleHierarchy[userRole] >= roleHierarchy[requiredRole]\<close>.
\<close>

fun roleHierarchy :: "UserRole \<Rightarrow> nat" where
  "roleHierarchy Stakeholder = 1"
| "roleHierarchy ProductManager = 2"
| "roleHierarchy Designer = 3"
| "roleHierarchy Developer = 4"

definition hasPermission :: "UserRole \<Rightarrow> UserRole \<Rightarrow> bool" where
  "hasPermission userRole requiredRole \<longleftrightarrow> roleHierarchy userRole \<ge> roleHierarchy requiredRole"

text \<open>
  \<^verbatim>\<open>AuthService.canAccessResource\<close>; the optional \<^verbatim>\<open>requiredRole\<close> is an option.
\<close>

definition canAccessResource :: "UserRole \<Rightarrow> string \<Rightarrow> string \<Rightarrow> UserRole option \<Rightarrow> bool" where
  "canAccessResource userRole userId resourceOwnerId requiredRole =
     (if userId = resourceOwnerId then True
      else case requiredRole of
             Some r \<Rightarrow> hasPermission userRole r
           | None \<Rightarrow> False)"

section \<open>HTTP replies of the middleware and the routes\<close>

text \<open>
  Every error reply of the source is \<^verbatim>\<open>res.status(n).json({error: {code, message, timestamp, ...}})\<close>.
  The record holds the fields every error body has; \<open>timestamp\<close> is the clock reading
  (milliseconds) that \<^verbatim>\<open>new Date().toISOString()\<close> renders. The fields only some bodies
  have are the \<open>extra\<close>.
\<close>

datatype extra =
    NoExtra
  | RetryAfter int
  | Details "string list"
  | Roles UserRole UserRole
  | ProvidedTimezone string

record error_body =
  code :: string
  message :: string
  timestamp :: int
  more_fields :: extra

text \<open>A middleware either calls \<^verbatim>\<open>next()\<close> or ends the request with a status and a body.\<close>

datatype 'a handled = Next 'a | Respond nat error_body

section \<open>The rate limiter\<close>

text \<open>
  \<^verbatim>\<open>authRateLimit(maxAttempts, windowMs)\<close> closes over
  \<^verbatim>\<open>attempts = new Map<string, {count, resetTime}>()\<close>; the model passes the map in and
  returns it updated. Times are milliseconds (\<^verbatim>\<open>Date.now()\<close>).
\<close>

record attempt =
  count :: int
  resetTime :: int

type_synonym attempts = "string \<rightharpoonup> attempt"

text \<open>\<^verbatim>\<open>req.ip || req.connection.remoteAddress || 'unknown'\<close>: undefined and the empty string are falsy.\<close>

definition clientId_of :: "string option \<Rightarrow> string option \<Rightarrow> string" where
  "clientId_of ip remoteAddress =
     (case ip of
        Some a \<Rightarrow> if a \<noteq> [] then a
                  else (case remoteAddress of Some b \<Rightarrow> if b \<noteq> [] then b else ''unknown'' | None \<Rightarrow> ''unknown'')
      | None \<Rightarrow> (case remoteAddress of Some b \<Rightarrow> if b \<noteq> [] then b else ''unknown'' | None \<Rightarrow> ''unknown''))"

text \<open>The loop \<^verbatim>\<open>for (const [key, value] of attempts.entries()) if (now > value.resetTime) attempts.delete(key)\<close>.\<close>

definition sweep :: "int \<Rightarrow> attempts \<Rightarrow> attempts" where
  "sweep now attempts =
     (\<lambda>key. case attempts key of
               None \<Rightarrow> None
             | Some v \<Rightarrow> if now > resetTime v then None else Some v)"

text \<open>\<^verbatim>\<open>Math.ceil(x / 1000)\<close> on an integer number of milliseconds.\<close>

definition ceil_seconds :: "int \<Rightarrow> int" where
  "ceil_seconds x = - ((- x) div 1000)"

definition authRateLimit ::
  "int \<Rightarrow> int \<Rightarrow> attempts \<Rightarrow> string \<Rightarrow> int \<Rightarrow> unit handled \<times> attempts" where
  "authRateLimit maxAttempts windowMs attempts0 clientId now =
     (let attempts = sweep now attempts0 in
      case attempts clientId of
        None \<Rightarrow> (Next (), attempts(clientId \<mapsto> \<lparr>count = 1, resetTime = now + windowMs\<rparr>))
      | Some clientAttempts \<Rightarrow>
          if now > resetTime clientAttempts
          then (Next (), attempts(clientId \<mapsto> \<lparr>count = 1, resetTime = now + windowMs\<rparr>))
          else if count clientAttempts \<ge> maxAttempts
          then (Respond 429
                  \<lparr>code = ''RATE_LIMIT_EXCEEDED'',
                   message = ''Too many authentication attempts. Please try again later.'',
                   timestamp = now,
                   more_fields = RetryAfter (ceil_seconds (resetTime clientAttempts - now))\<rparr>,
                attempts)
          else (Next (), attempts(clientId \<mapsto> clientAttempts\<lparr>count := count clientAttempts + 1\<rparr>)))"

text \<open>Successive requests of one client, at the given clock readings, threaded through the map.\<close>

fun calls :: "int \<Rightarrow> int \<Rightarrow> string \<Rightarrow> attempts \<Rightarrow> int list \<Rightarrow> unit handled list \<times> attempts" where
  "calls maxAttempts windowMs clientId attempts [] = ([], attempts)"
| "calls maxAttempts windowMs clientId attempts (now # later) =
     (case authRateLimit maxAttempts windowMs attempts clientId now of
        (r, attempts') \<Rightarrow>
          (case calls maxAttempts windowMs clientId attempts' later of
             (rs, final) \<Rightarrow> (r # rs, final)))"

text \<open>The reply the limiter gives when it rejects at \<open>now\<close> an entry that resets at \<open>reset\<close>.\<close>

definition rate_limited :: "int \<Rightarrow> int \<Rightarrow> unit handled" where
  "rate_limited reset now =
     Respond 429
       \<lparr>code = ''RATE_LIMIT_EXCEEDED'',
        message = ''Too many authentication attempts. Please try again later.'',
        timestamp = now,
        more_fields = RetryAfter (ceil_seconds (reset - now))\<rparr>"

section \<open>Values, errors and the libraries the service calls\<close>

text \<open>
  JSON values as far as token payloads use them, and a JSON object as the list of its
  entries; \<open>map_of\<close> reads a key.
\<close>

datatype json = JString string | JNumber int | JBool bool | JNull

type_synonym jobject = "(string \<times> json) list"

text \<open>
  The value of a \<^verbatim>\<open>JSONB\<close> column, and of the JavaScript value written to one: arrays and
  objects nest. \<open>BNull\<close> is \<^verbatim>\<open>null\<close>.
\<close>

datatype jsonb =
    BNull
  | BBool bool
  | BNumber int
  | BString string
  | BArray "jsonb list"
  | BObject "(string \<times> jsonb) list"

text \<open>
  What the code throws. \<open>Error m\<close> is \<^verbatim>\<open>new Error(m)\<close>; \<open>ZodError\<close> carries the paths of its
  issues; \<open>JsonWebTokenError\<close>, \<open>TokenExpiredError\<close> and \<open>NotBeforeError\<close> are the error
  classes of \<^verbatim>\<open>jwt.verify\<close>: a token that is bad, one that is too old, one that is not yet
  active; \<open>TypeError\<close> is a property read on \<^verbatim>\<open>null\<close>.
\<close>

datatype error =
    Error string
  | ZodError "string list"
  | JsonWebTokenError string
  | TokenExpiredError
  | NotBeforeError
  | TypeError

fun message_of :: "error \<Rightarrow> string" where
  "message_of (Error m) = m"
| "message_of (ZodError issues) = concat issues"
| "message_of (JsonWebTokenError m) = m"
| "message_of TokenExpiredError = ''jwt expired''"
| "message_of NotBeforeError = ''jwt not active''"
| "message_of TypeError = ''Cannot read properties of null''"


text \<open>\<^verbatim>\<open>s.toLowerCase()\<close> on the ASCII letters (an address that passes zod's \<^verbatim>\<open>email()\<close> is ASCII).\<close>

definition lower_char :: "char \<Rightarrow> char" where
  "lower_char c =
     (case map_of (zip ''ABCDEFGHIJKLMNOPQRSTUVWXYZ'' ''abcdefghijklmnopqrstuvwxyz'') c of
        Some l \<Rightarrow> l
      | None \<Rightarrow> c)"

definition toLowerCase :: "string \<Rightarrow> string" where
  "toLowerCase s = map lower_char s"

text \<open>
  A signed token, symbolically: the claims and the secret its HMAC was computed with. The
  signature of a token checks under a secret exactly when that secret signed it.
\<close>

datatype jws = JWS (jws_payload: jobject) (jws_key: string)

text \<open>
  What the repository's files do not hold, taken as parameters: the compact serialisation
  of a signed token and its parser (jsonwebtoken), the time span parser \<^verbatim>\<open>ms\<close> (a span in
  milliseconds), bcrypt, \<^verbatim>\<open>parseInt\<close>, the patterns of zod's \<^verbatim>\<open>uuid()\<close> and \<^verbatim>\<open>email()\<close>, the
  time zone names \<^verbatim>\<open>Intl.DateTimeFormat\<close> accepts, and what a \<^verbatim>\<open>JSONB\<close> column holds after the
  database driver was handed a JavaScript value as the parameter for it (\<open>None\<close> when the
  server refuses the text the driver sent).
\<close>

record externals =
  jws_encode :: "jws \<Rightarrow> string"
  jws_decode :: "string \<Rightarrow> jws option"
  ms :: "string \<Rightarrow> int option"
  bcrypt_hash :: "string \<Rightarrow> int \<Rightarrow> string \<Rightarrow> string"
  bcrypt_compare :: "string \<Rightarrow> string \<Rightarrow> bool"
  parseInt :: "string \<Rightarrow> int"
  is_uuid :: "string \<Rightarrow> bool"
  is_email :: "string \<Rightarrow> bool"
  is_timezone :: "string \<Rightarrow> bool"
  pg_jsonb :: "jsonb \<Rightarrow> jsonb option"

text \<open>The parser reads back what the serialisation wrote, and the empty string is no token.\<close>

definition codec_ok :: "externals \<Rightarrow> bool" where
  "codec_ok X \<longleftrightarrow> (\<forall>j. jws_decode X (jws_encode X j) = Some j) \<and> jws_decode X [] = None"

text \<open>
  \<^verbatim>\<open>jwt.sign(payload, secret, {expiresIn})\<close> at the clock second \<open>now_s\<close>: the payload gets
  \<^verbatim>\<open>iat = now_s\<close> and \<^verbatim>\<open>exp = floor(iat + ms(expiresIn) / 1000)\<close>, and is signed with HS256.
  An \<^verbatim>\<open>expiresIn\<close> that is no time span throws.
\<close>

definition jwt_sign :: "externals \<Rightarrow> jobject \<Rightarrow> string \<Rightarrow> string \<Rightarrow> int \<Rightarrow> error + string" where
  "jwt_sign X payload secret expiresIn now_s =
     (case ms X expiresIn of
        None \<Rightarrow> Inl (Error ''expiresIn should be a number of seconds or string representing a timespan'')
      | Some millis \<Rightarrow>
          Inr (jws_encode X
                 (JWS (payload @ [(''iat'', JNumber now_s), (''exp'', JNumber (now_s + millis div 1000))])
                      secret)))"

text \<open>
  \<^verbatim>\<open>jwt.verify(token, secret)\<close> at the clock second \<open>now_s\<close>, with no options: the token must
  parse and its signature must check under \<open>secret\<close>; then the two registered claims the
  library reads are checked, \<^verbatim>\<open>nbf\<close> first. A claim that is present and not a number is an
  error; \<^verbatim>\<open>payload.nbf > clockTimestamp\<close> is a token not yet active and
  \<^verbatim>\<open>clockTimestamp >= payload.exp\<close> is expiry (no clock tolerance is configured).
\<close>

definition nbf_error :: "json option \<Rightarrow> int \<Rightarrow> error option" where
  "nbf_error nbf now_s =
     (case nbf of
        None \<Rightarrow> None
      | Some (JNumber n) \<Rightarrow> if n > now_s then Some NotBeforeError else None
      | Some _ \<Rightarrow> Some (JsonWebTokenError ''invalid nbf value''))"

definition exp_error :: "json option \<Rightarrow> int \<Rightarrow> error option" where
  "exp_error ex now_s =
     (case ex of
        None \<Rightarrow> None
      | Some (JNumber e) \<Rightarrow> if now_s \<ge> e then Some TokenExpiredError else None
      | Some _ \<Rightarrow> Some (JsonWebTokenError ''invalid exp value''))"

definition jwt_verify :: "externals \<Rightarrow> string \<Rightarrow> string \<Rightarrow> int \<Rightarrow> error + jobject" where
  "jwt_verify X token secret now_s =
     (if token = [] then Inl (JsonWebTokenError ''jwt must be provided'')
      else case jws_decode X token of
        None \<Rightarrow> Inl (JsonWebTokenError ''jwt malformed'')
      | Some j \<Rightarrow>
          if jws_key j \<noteq> secret then Inl (JsonWebTokenError ''invalid signature'')
          else (case nbf_error (map_of (jws_payload j) ''nbf'') now_s of
                  Some e \<Rightarrow> Inl e
                | None \<Rightarrow>
                    (case exp_error (map_of (jws_payload j) ''exp'') now_s of
                       Some e \<Rightarrow> Inl e
                     | None \<Rightarrow> Inr (jws_payload j))))"

text \<open>\<^verbatim>\<open>jwt.decode(token)\<close>: the payload, unverified, or \<^verbatim>\<open>null\<close>.\<close>

definition jwt_decode :: "externals \<Rightarrow> string \<Rightarrow> jobject option" where
  "jwt_decode X token = map_option jws_payload (jws_decode X token)"

section \<open>The token schemas\<close>

text \<open>
  \<^verbatim>\<open>JWTPayloadSchema\<close> and \<^verbatim>\<open>RefreshTokenPayloadSchema\<close> are \<^verbatim>\<open>z.object({...})\<close> without
  \<^verbatim>\<open>.strict()\<close>: \<^verbatim>\<open>parse\<close> checks each key of the shape, reports every key that is missing
  or ill-typed, and returns an object of the shape's keys only (other keys of the input
  are stripped). The parsed payload is the record of the shape's keys.
\<close>

record JWTPayload =
  userId :: string
  email :: string
  role :: UserRole
  timezone :: string
  sessionId :: string
  iat :: int
  exp_at :: int

record RefreshTokenPayload =
  rt_userId :: string
  rt_sessionId :: string
  tokenVersion :: int
  rt_iat :: int
  rt_exp :: int

definition z_string :: "json option \<Rightarrow> bool" where
  "z_string v = (case v of Some (JString s) \<Rightarrow> True | _ \<Rightarrow> False)"

definition z_string_uuid :: "externals \<Rightarrow> json option \<Rightarrow> bool" where
  "z_string_uuid X v = (case v of Some (JString s) \<Rightarrow> is_uuid X s | _ \<Rightarrow> False)"

definition z_string_email :: "externals \<Rightarrow> json option \<Rightarrow> bool" where
  "z_string_email X v = (case v of Some (JString s) \<Rightarrow> is_email X s | _ \<Rightarrow> False)"

definition z_role :: "json option \<Rightarrow> bool" where
  "z_role v = (case v of Some (JString s) \<Rightarrow> nativeEnum_role s \<noteq> None | _ \<Rightarrow> False)"

definition z_number :: "json option \<Rightarrow> bool" where
  "z_number v = (case v of Some (JNumber n) \<Rightarrow> True | _ \<Rightarrow> False)"

fun the_string :: "json option \<Rightarrow> string" where
  "the_string (Some (JString s)) = s"
| "the_string _ = []"

fun the_number :: "json option \<Rightarrow> int" where
  "the_number (Some (JNumber n)) = n"
| "the_number _ = 0"

definition the_role :: "json option \<Rightarrow> UserRole" where
  "the_role v = (case nativeEnum_role (the_string v) of Some r \<Rightarrow> r | None \<Rightarrow> Developer)"

text \<open>
  A shape is the list of its keys, each with the check of its value (\<open>None\<close> is a key the
  object does not have). \<open>issues\<close> are the keys that fail, in the shape's order.
\<close>

type_synonym shape = "(string \<times> (json option \<Rightarrow> bool)) list"

definition issues :: "(string \<times> bool) list \<Rightarrow> string list" where
  "issues checks = map fst (filter (\<lambda>(path, ok). \<not> ok) checks)"

definition shape_issues :: "shape \<Rightarrow> jobject \<Rightarrow> string list" where
  "shape_issues sh payload = issues (map (\<lambda>(key, check). (key, check (map_of payload key))) sh)"

definition JWTPayloadSchema :: "externals \<Rightarrow> shape" where
  "JWTPayloadSchema X =
     [(''userId'', z_string_uuid X),
      (''email'', z_string_email X),
      (''role'', z_role),
      (''timezone'', z_string),
      (''sessionId'', z_string_uuid X),
      (''iat'', z_number),
      (''exp'', z_number)]"

definition RefreshTokenPayloadSchema :: "externals \<Rightarrow> shape" where
  "RefreshTokenPayloadSchema X =
     [(''userId'', z_string_uuid X),
      (''sessionId'', z_string_uuid X),
      (''tokenVersion'', z_number),
      (''iat'', z_number),
      (''exp'', z_number)]"

definition JWTPayloadSchema_parse :: "externals \<Rightarrow> jobject \<Rightarrow> error + JWTPayload" where
  "JWTPayloadSchema_parse X payload =
     (let get = map_of payload;
          bad = shape_issues (JWTPayloadSchema X) payload
      in if bad \<noteq> [] then Inl (ZodError bad)
         else Inr \<lparr>userId = the_string (get ''userId''),
                   email = the_string (get ''email''),
                   role = the_role (get ''role''),
                   timezone = the_string (get ''timezone''),
                   sessionId = the_string (get ''sessionId''),
                   iat = the_number (get ''iat''),
                   exp_at = the_number (get ''exp'')\<rparr>)"

definition RefreshTokenPayloadSchema_parse :: "externals \<Rightarrow> jobject \<Rightarrow> error + RefreshTokenPayload" where
  "RefreshTokenPayloadSchema_parse X payload =
     (let get = map_of payload;
          bad = shape_issues (RefreshTokenPayloadSchema X) payload
      in if bad \<noteq> [] then Inl (ZodError bad)
         else Inr \<lparr>rt_userId = the_string (get ''userId''),
                   rt_sessionId = the_string (get ''sessionId''),
                   tokenVersion = the_number (get ''tokenVersion''),
                   rt_iat = the_number (get ''iat''),
                   rt_exp = the_number (get ''exp'')\<rparr>)"

text \<open>The keys of the two shapes.\<close>

definition JWTPayload_keys :: "string list" where
  "JWTPayload_keys = [''userId'', ''email'', ''role'', ''timezone'', ''sessionId'', ''iat'', ''exp'']"

definition RefreshTokenPayload_keys :: "string list" where
  "RefreshTokenPayload_keys = [''userId'', ''sessionId'', ''tokenVersion'', ''iat'', ''exp'']"

section \<open>Schemas of the JSONB columns\<close>

text \<open>
  zod on a \<^verbatim>\<open>JSONB\<close> value. A schema gives the parsed value, or \<open>None\<close> when \<^verbatim>\<open>parse\<close> throws.
  The schema of a key of a \<^verbatim>\<open>z.object\<close> reads the key in the object and gives the entries it
  contributes to the parsed object: one entry, or none for an optional key that is absent.
  \<^verbatim>\<open>z.object\<close> wants an object, parses each key of its shape and drops every other key.
\<close>

type_synonym key_schema = "(string \<times> jsonb) list \<Rightarrow> (string \<times> jsonb) list option"

definition z_boolean_default :: "string \<Rightarrow> bool \<Rightarrow> key_schema" where
  "z_boolean_default key d obj =
     (case map_of obj key of
        None \<Rightarrow> Some [(key, BBool d)]
      | Some (BBool b) \<Rightarrow> Some [(key, BBool b)]
      | Some _ \<Rightarrow> None)"

definition z_string_default :: "string \<Rightarrow> string \<Rightarrow> key_schema" where
  "z_string_default key d obj =
     (case map_of obj key of
        None \<Rightarrow> Some [(key, BString d)]
      | Some (BString s) \<Rightarrow> Some [(key, BString s)]
      | Some _ \<Rightarrow> None)"

definition z_string_optional :: "string \<Rightarrow> key_schema" where
  "z_string_optional key obj =
     (case map_of obj key of
        None \<Rightarrow> Some []
      | Some (BString s) \<Rightarrow> Some [(key, BString s)]
      | Some _ \<Rightarrow> None)"

definition z_enum_default :: "string \<Rightarrow> string list \<Rightarrow> string \<Rightarrow> key_schema" where
  "z_enum_default key allowed d obj =
     (case map_of obj key of
        None \<Rightarrow> Some [(key, BString d)]
      | Some (BString s) \<Rightarrow> if s \<in> set allowed then Some [(key, BString s)] else None
      | Some _ \<Rightarrow> None)"

definition z_required :: "string \<Rightarrow> (jsonb \<Rightarrow> jsonb option) \<Rightarrow> key_schema" where
  "z_required key schema obj =
     (case map_of obj key of
        None \<Rightarrow> None
      | Some v \<Rightarrow> map_option (\<lambda>w. [(key, w)]) (schema v))"

definition z_optional :: "string \<Rightarrow> (jsonb \<Rightarrow> jsonb option) \<Rightarrow> key_schema" where
  "z_optional key schema obj =
     (case map_of obj key of
        None \<Rightarrow> Some []
      | Some v \<Rightarrow> map_option (\<lambda>w. [(key, w)]) (schema v))"

definition z_default :: "string \<Rightarrow> jsonb \<Rightarrow> (jsonb \<Rightarrow> jsonb option) \<Rightarrow> key_schema" where
  "z_default key d schema obj =
     (case map_of obj key of
        None \<Rightarrow> map_option (\<lambda>w. [(key, w)]) (schema d)
      | Some v \<Rightarrow> map_option (\<lambda>w. [(key, w)]) (schema v))"

definition z_object :: "key_schema list \<Rightarrow> jsonb \<Rightarrow> jsonb option" where
  "z_object ks v =
     (case v of
        BObject obj \<Rightarrow>
          if list_all (\<lambda>k. k obj \<noteq> None) ks
          then Some (BObject (concat (map (\<lambda>k. case k obj of Some entries \<Rightarrow> entries | None \<Rightarrow> []) ks)))
          else None
      | _ \<Rightarrow> None)"

text \<open>\<^verbatim>\<open>z.array(z.string())\<close>.\<close>

definition z_array_string :: "jsonb \<Rightarrow> jsonb option" where
  "z_array_string v =
     (case v of
        BArray xs \<Rightarrow> if list_all (\<lambda>x. case x of BString s \<Rightarrow> True | _ \<Rightarrow> False) xs then Some v else None
      | _ \<Rightarrow> None)"

text \<open>\<^verbatim>\<open>NotificationPreferences\<close> of the shared types.\<close>

definition NotificationPreferences :: "jsonb \<Rightarrow> jsonb option" where
  "NotificationPreferences =
     z_object
       [z_boolean_default ''email'' True,
        z_boolean_default ''push'' True,
        z_boolean_default ''slack'' False,
        z_optional ''quietHours''
          (z_object
             [z_boolean_default ''enabled'' False,
              z_string_optional ''startTime'',
              z_string_optional ''endTime''])]"

text \<open>The key \<^verbatim>\<open>preferences\<close> of \<^verbatim>\<open>UserEntitySchema\<close>, and of \<^verbatim>\<open>CreateUserSchema\<close> before its
  \<^verbatim>\<open>.default({})\<close>.\<close>

definition UserEntity_preferences :: "jsonb \<Rightarrow> jsonb option" where
  "UserEntity_preferences =
     z_object
       [z_required ''notifications'' NotificationPreferences,
        z_enum_default ''theme'' [''light'', ''dark''] ''light'',
        z_string_default ''language'' ''en'']"

definition CreateUser_preferences :: "jsonb \<Rightarrow> jsonb option" where
  "CreateUser_preferences =
     z_object
       [z_default ''notifications'' (BObject []) NotificationPreferences,
        z_enum_default ''theme'' [''light'', ''dark''] ''light'',
        z_string_default ''language'' ''en'']"

section \<open>The credential store\<close>

text \<open>
  A row of the table \<^verbatim>\<open>users\<close> (\<^verbatim>\<open>id\<close>, \<^verbatim>\<open>name\<close>, \<^verbatim>\<open>email\<close>, \<^verbatim>\<open>role\<close> and \<^verbatim>\<open>timezone\<close> carry the prefix
  \<open>u_\<close>). A nullable column is an option; \<^verbatim>\<open>skills\<close> and \<^verbatim>\<open>preferences\<close> are \<^verbatim>\<open>JSONB\<close>. Times are
  clock readings in milliseconds. The table is the list of its rows.
\<close>

record UserEntity =
  u_id :: string
  u_name :: string
  u_email :: string
  password_hash :: string
  u_role :: UserRole
  u_timezone :: string
  avatar_url :: "string option"
  bio :: "string option"
  skills :: jsonb
  preferences :: jsonb
  is_active :: bool
  email_verified :: bool
  last_seen :: "int option"
  created_at :: int
  updated_at :: int

type_synonym users = "UserEntity list"

text \<open>
  \<^verbatim>\<open>validateData(this.schema, row)\<close> with \<^verbatim>\<open>UserEntitySchema\<close>. The types of the other columns
  meet their keys of the schema; \<^verbatim>\<open>id\<close> must be a UUID to zod, \<^verbatim>\<open>email\<close> an address to zod,
  \<^verbatim>\<open>skills\<close> an array of strings and \<^verbatim>\<open>preferences\<close> an object of its shape, which is returned
  with its defaults filled in. A failure is rethrown as
  \<^verbatim>\<open>new Error(`Validation failed: ...`)\<close>; the text after the colon is given by the paths.
\<close>

definition validateData_row :: "externals \<Rightarrow> UserEntity \<Rightarrow> error + UserEntity" where
  "validateData_row X row =
     (let bad = issues
            [(''id'', is_uuid X (u_id row)),
             (''email'', is_email X (u_email row)),
             (''skills'', z_array_string (skills row) \<noteq> None),
             (''preferences'', UserEntity_preferences (preferences row) \<noteq> None)]
      in if bad \<noteq> [] then Inl (Error (''Validation failed: '' @ concat bad))
         else Inr (row\<lparr>preferences :=
                          (case UserEntity_preferences (preferences row) of
                             Some parsed \<Rightarrow> parsed
                           | None \<Rightarrow> preferences row)\<rparr>))"

text \<open>\<^verbatim>\<open>UserRepository.findByEmail\<close>: \<^verbatim>\<open>WHERE email = $1 AND is_active = true\<close> with \<^verbatim>\<open>$1 = email.toLowerCase()\<close>.\<close>

definition findByEmail :: "externals \<Rightarrow> users \<Rightarrow> string \<Rightarrow> error + UserEntity option" where
  "findByEmail X users address =
     (case filter (\<lambda>u. u_email u = toLowerCase address \<and> is_active u) users of
        [] \<Rightarrow> Inr None
      | row # _ \<Rightarrow> map_sum (\<lambda>e. e) Some (validateData_row X row))"

text \<open>\<^verbatim>\<open>UserRepository.emailExists\<close> (without \<^verbatim>\<open>excludeUserId\<close>): \<^verbatim>\<open>SELECT 1 FROM users WHERE email = $1\<close>.\<close>

definition emailExists :: "users \<Rightarrow> string \<Rightarrow> bool" where
  "emailExists users address = (filter (\<lambda>u. u_email u = toLowerCase address) users \<noteq> [])"

text \<open>\<^verbatim>\<open>BaseRepository.findById\<close>: \<^verbatim>\<open>WHERE id = $1\<close>.\<close>

definition findById :: "externals \<Rightarrow> users \<Rightarrow> string \<Rightarrow> error + UserEntity option" where
  "findById X users ident =
     (case filter (\<lambda>u. u_id u = ident) users of
        [] \<Rightarrow> Inr None
      | row # _ \<Rightarrow> map_sum (\<lambda>e. e) Some (validateData_row X row))"

text \<open>\<^verbatim>\<open>UserRepository.updateLastSeen\<close>: \<^verbatim>\<open>SET last_seen = NOW() WHERE id = $1 AND is_active = true\<close>.\<close>

definition updateLastSeen :: "users \<Rightarrow> string \<Rightarrow> int \<Rightarrow> users" where
  "updateLastSeen users ident now =
     map (\<lambda>u. if u_id u = ident \<and> is_active u then u\<lparr>last_seen := Some now\<rparr> else u) users"

text \<open>
  The input of \<^verbatim>\<open>create\<close> as \<^verbatim>\<open>register\<close> fills it (it passes no \<^verbatim>\<open>avatar_url\<close>, \<^verbatim>\<open>bio\<close>, \<^verbatim>\<open>skills\<close> or
  \<^verbatim>\<open>preferences\<close>), and what \<^verbatim>\<open>CreateUserSchema\<close> makes of it: the two optional keys stay
  absent, \<^verbatim>\<open>skills\<close> gets its default \<^verbatim>\<open>[]\<close> and \<^verbatim>\<open>preferences\<close> the parse of its default \<^verbatim>\<open>{}\<close>.
\<close>

record CreateUserInput =
  c_name :: string
  c_email :: string
  c_password_hash :: string
  c_role :: UserRole
  c_timezone :: string

record CreateUserData = CreateUserInput +
  c_skills :: jsonb
  c_preferences :: jsonb

definition validateData_create :: "externals \<Rightarrow> CreateUserInput \<Rightarrow> error + CreateUserData" where
  "validateData_create X d =
     (let parsed = CreateUser_preferences (BObject []);
          bad = issues
            [(''name'', 1 \<le> length (c_name d) \<and> length (c_name d) \<le> 100),
             (''email'', is_email X (c_email d) \<and> length (c_email d) \<le> 254),
             (''password_hash'', 1 \<le> length (c_password_hash d)),
             (''preferences'', parsed \<noteq> None)]
      in if bad \<noteq> [] then Inl (Error (''Validation failed: '' @ concat bad))
         else Inr \<lparr>c_name = c_name d, c_email = c_email d, c_password_hash = c_password_hash d,
                   c_role = c_role d, c_timezone = c_timezone d,
                   c_skills = BArray [],
                   c_preferences = (case parsed of Some p \<Rightarrow> p | None \<Rightarrow> BObject [])\<rparr>)"

text \<open>
  \<^verbatim>\<open>INSERT INTO users (name, email, password_hash, role, timezone, skills, preferences)
  VALUES ($1, ..., $7) RETURNING *\<close> with the values of the validated data as parameters,
  under the table's definition: the two \<^verbatim>\<open>JSONB\<close> columns hold what the server reads from
  the text the driver sends for the parameter; \<^verbatim>\<open>name VARCHAR(100)\<close>,
  \<^verbatim>\<open>email VARCHAR(254) UNIQUE\<close>, \<^verbatim>\<open>password_hash VARCHAR(255)\<close>, \<^verbatim>\<open>timezone VARCHAR(50)\<close>,
  \<^verbatim>\<open>id UUID PRIMARY KEY\<close>. \<open>new_id\<close> is what \<^verbatim>\<open>uuid_generate_v4()\<close> gives the row and \<open>now\<close> what
  \<^verbatim>\<open>NOW()\<close> gives it; the other columns take their defaults. The result is the row
  returned and the table with it. \<^verbatim>\<open>executeQuery\<close> rethrows a failure as
  \<^verbatim>\<open>new Error(`Database operation failed: ...`)\<close>.
\<close>

definition insert_row ::
  "externals \<Rightarrow> users \<Rightarrow> CreateUserData \<Rightarrow> string \<Rightarrow> int \<Rightarrow> error + UserEntity \<times> users" where
  "insert_row X users v new_id now =
     (case (pg_jsonb X (c_skills v), pg_jsonb X (c_preferences v)) of
        (Some stored_skills, Some stored_preferences) \<Rightarrow>
          if length (c_name v) > 100 \<or> length (c_email v) > 254
             \<or> length (c_password_hash v) > 255 \<or> length (c_timezone v) > 50
          then Inl (Error ''Database operation failed: value too long for type character varying'')
          else if (\<exists>u\<in>set users. u_id u = new_id) \<or> (\<exists>u\<in>set users. u_email u = c_email v)
          then Inl (Error ''Database operation failed: duplicate key value violates unique constraint'')
          else let row = \<lparr>u_id = new_id, u_name = c_name v, u_email = c_email v,
                          password_hash = c_password_hash v, u_role = c_role v,
                          u_timezone = c_timezone v, avatar_url = None, bio = None,
                          skills = stored_skills, preferences = stored_preferences,
                          is_active = True, email_verified = False, last_seen = None,
                          created_at = now, updated_at = now\<rparr>
               in Inr (row, users @ [row])
      | _ \<Rightarrow> Inl (Error ''Database operation failed: invalid input syntax for type json''))"

text \<open>
  \<^verbatim>\<open>BaseRepository.create\<close>: validate the input with \<^verbatim>\<open>CreateUserSchema\<close>, insert, and validate
  the row returned with \<^verbatim>\<open>UserEntitySchema\<close>. When this last validation throws, the row has
  been inserted.
\<close>

definition create ::
  "externals \<Rightarrow> users \<Rightarrow> CreateUserInput \<Rightarrow> string \<Rightarrow> int \<Rightarrow> (error + UserEntity) \<times> users" where
  "create X users d new_id now =
     (case validateData_create X d of
        Inl e \<Rightarrow> (Inl e, users)
      | Inr validatedData \<Rightarrow>
          (case insert_row X users validatedData new_id now of
             Inl e \<Rightarrow> (Inl e, users)
           | Inr (row, users') \<Rightarrow> (validateData_row X row, users')))"

text \<open>
  \<^verbatim>\<open>BaseRepository.updateById(id, {timezone})\<close>, the one update \<^verbatim>\<open>login\<close> makes:
  \<^verbatim>\<open>SET timezone = $2, updated_at = NOW() WHERE id = $1 RETURNING *\<close>.
\<close>

definition updateById_timezone ::
  "externals \<Rightarrow> users \<Rightarrow> string \<Rightarrow> string \<Rightarrow> int \<Rightarrow> (error + UserEntity option) \<times> users" where
  "updateById_timezone X users ident tz now =
     (if length tz > 50
      then (Inl (Error ''Database operation failed: value too long for type character varying''), users)
      else let users' = map (\<lambda>u. if u_id u = ident then u\<lparr>u_timezone := tz, updated_at := now\<rparr> else u) users
           in (case filter (\<lambda>u. u_id u = ident) users' of
                 [] \<Rightarrow> (Inr None, users')
               | row # _ \<Rightarrow> (map_sum (\<lambda>e. e) Some (validateData_row X row), users')))"

section \<open>The authentication service\<close>

text \<open>
  The environment the constructor reads and the configuration it keeps.
  \<^verbatim>\<open>a || b\<close> takes \<open>b\<close> when \<open>a\<close> is undefined or the empty string.
\<close>

record env =
  env_JWT_SECRET :: "string option"
  env_JWT_REFRESH_SECRET :: "string option"
  env_JWT_EXPIRES_IN :: "string option"
  env_JWT_REFRESH_EXPIRES_IN :: "string option"
  env_BCRYPT_ROUNDS :: "string option"

record config =
  JWT_SECRET :: string
  JWT_REFRESH_SECRET :: string
  JWT_EXPIRES_IN :: string
  JWT_REFRESH_EXPIRES_IN :: string
  BCRYPT_ROUNDS :: int

definition truthy :: "string option \<Rightarrow> string option" where
  "truthy v = (case v of None \<Rightarrow> None | Some s \<Rightarrow> if s = [] then None else Some s)"

definition or_else :: "string option \<Rightarrow> string \<Rightarrow> string" where
  "or_else v d = (case truthy v of None \<Rightarrow> d | Some s \<Rightarrow> s)"

definition AuthService_constructor :: "externals \<Rightarrow> env \<Rightarrow> error + config" where
  "AuthService_constructor X e =
     (case truthy (env_JWT_SECRET e) of
        None \<Rightarrow> Inl (Error ''JWT_SECRET environment variable is required'')
      | Some secret \<Rightarrow>
          Inr \<lparr>JWT_SECRET = secret,
               JWT_REFRESH_SECRET = or_else (env_JWT_REFRESH_SECRET e) secret,
               JWT_EXPIRES_IN = or_else (env_JWT_EXPIRES_IN e) ''15m'',
               JWT_REFRESH_EXPIRES_IN = or_else (env_JWT_REFRESH_EXPIRES_IN e) ''7d'',
               BCRYPT_ROUNDS = parseInt X (or_else (env_BCRYPT_ROUNDS e) ''12'')\<rparr>)"

text \<open>
  The argument of \<^verbatim>\<open>generateTokens\<close> and its result \<^verbatim>\<open>AuthTokens\<close> (the field
  \<^verbatim>\<open>refreshToken\<close> is \<open>refresh_token\<close> here, the method keeps the name).
\<close>

record claims =
  cl_userId :: string
  cl_email :: string
  cl_role :: UserRole
  cl_timezone :: string
  cl_sessionId :: string

record AuthTokens =
  accessToken :: string
  refresh_token :: string
  expiresIn :: int
  tokenType :: string

definition accessTokenPayload :: "claims \<Rightarrow> jobject" where
  "accessTokenPayload payload =
     [(''userId'', JString (cl_userId payload)),
      (''email'', JString (cl_email payload)),
      (''role'', JString (role_string (cl_role payload))),
      (''timezone'', JString (cl_timezone payload)),
      (''sessionId'', JString (cl_sessionId payload))]"

definition refreshTokenPayload :: "claims \<Rightarrow> jobject" where
  "refreshTokenPayload payload =
     [(''userId'', JString (cl_userId payload)),
      (''sessionId'', JString (cl_sessionId payload)),
      (''tokenVersion'', JNumber 1)]"

text \<open>
  \<^verbatim>\<open>AuthService.generateTokens\<close> at the clock reading \<open>now_ms\<close>. \<^verbatim>\<open>jwt.decode\<close> of the access
  token gives \<^verbatim>\<open>expiresIn = exp - now\<close>; a \<^verbatim>\<open>null\<close> there is a TypeError.
\<close>

definition generateTokens :: "externals \<Rightarrow> config \<Rightarrow> claims \<Rightarrow> bool \<Rightarrow> int \<Rightarrow> error + AuthTokens" where
  "generateTokens X cfg payload longLived now_ms =
     (let now = now_ms div 1000 in
      case jwt_sign X (accessTokenPayload payload) (JWT_SECRET cfg) (JWT_EXPIRES_IN cfg) now of
        Inl e \<Rightarrow> Inl e
      | Inr access \<Rightarrow>
          let refreshTokenExpiry = (if longLived then ''30d'' else JWT_REFRESH_EXPIRES_IN cfg) in
          (case jwt_sign X (refreshTokenPayload payload) (JWT_REFRESH_SECRET cfg) refreshTokenExpiry now of
             Inl e \<Rightarrow> Inl e
           | Inr refresh \<Rightarrow>
               (case jwt_decode X access of
                  None \<Rightarrow> Inl TypeError
                | Some accessTokenDecoded \<Rightarrow>
                    Inr \<lparr>accessToken = access,
                         refresh_token = refresh,
                         expiresIn = the_number (map_of accessTokenDecoded ''exp'') - now,
                         tokenType = ''Bearer''\<rparr>)))"

text \<open>\<^verbatim>\<open>AuthService.verifyAccessToken\<close> at the clock second \<open>now_s\<close>: whatever is thrown inside is
  replaced by \<^verbatim>\<open>new Error('Invalid access token')\<close>.\<close>

definition verifyAccessToken :: "externals \<Rightarrow> config \<Rightarrow> string \<Rightarrow> int \<Rightarrow> error + JWTPayload" where
  "verifyAccessToken X cfg token now_s =
     (case jwt_verify X token (JWT_SECRET cfg) now_s of
        Inl e \<Rightarrow> Inl (Error ''Invalid access token'')
      | Inr payload \<Rightarrow>
          (case JWTPayloadSchema_parse X payload of
             Inl e \<Rightarrow> Inl (Error ''Invalid access token'')
           | Inr p \<Rightarrow> Inr p))"

text \<open>The first two steps of \<^verbatim>\<open>refreshToken\<close>: \<^verbatim>\<open>jwt.verify\<close> under the refresh secret, then
  \<^verbatim>\<open>RefreshTokenPayloadSchema.parse\<close>.\<close>

definition verifyRefreshPayload :: "externals \<Rightarrow> config \<Rightarrow> string \<Rightarrow> int \<Rightarrow> error + RefreshTokenPayload" where
  "verifyRefreshPayload X cfg token now_s =
     (case jwt_verify X token (JWT_REFRESH_SECRET cfg) now_s of
        Inl e \<Rightarrow> Inl e
      | Inr payload \<Rightarrow> RefreshTokenPayloadSchema_parse X payload)"

definition claims_of_user :: "UserEntity \<Rightarrow> string \<Rightarrow> claims" where
  "claims_of_user user sid =
     \<lparr>cl_userId = u_id user, cl_email = u_email user, cl_role = u_role user,
      cl_timezone = u_timezone user, cl_sessionId = sid\<rparr>"

text \<open>The body of the \<^verbatim>\<open>try\<close> of \<^verbatim>\<open>AuthService.refreshToken\<close>; \<^verbatim>\<open>RefreshTokenRequestSchema\<close> is
  \<^verbatim>\<open>refreshToken: z.string().min(1)\<close>.\<close>

definition refreshToken_body ::
  "externals \<Rightarrow> config \<Rightarrow> users \<Rightarrow> string \<Rightarrow> int \<Rightarrow> (error + AuthTokens) \<times> users" where
  "refreshToken_body X cfg users token now =
     (if length token < 1 then (Inl (ZodError [''refreshToken'']), users)
      else case verifyRefreshPayload X cfg token (now div 1000) of
        Inl e \<Rightarrow> (Inl e, users)
      | Inr validatedPayload \<Rightarrow>
          (case findById X users (rt_userId validatedPayload) of
             Inl e \<Rightarrow> (Inl e, users)
           | Inr None \<Rightarrow> (Inl (Error ''Invalid refresh token''), users)
           | Inr (Some user) \<Rightarrow>
               if \<not> is_active user then (Inl (Error ''Invalid refresh token''), users)
               else (case generateTokens X cfg
                            (claims_of_user user (rt_sessionId validatedPayload)) False now of
                       Inl e \<Rightarrow> (Inl e, users)
                     | Inr tokens \<Rightarrow> (Inr tokens, updateLastSeen users (u_id user) now))))"

text \<open>\<^verbatim>\<open>AuthService.refreshToken\<close>: the \<^verbatim>\<open>catch\<close> replaces every error by
  \<^verbatim>\<open>new Error('Invalid refresh token')\<close>.\<close>

definition refreshToken ::
  "externals \<Rightarrow> config \<Rightarrow> users \<Rightarrow> string \<Rightarrow> int \<Rightarrow> (error + AuthTokens) \<times> users" where
  "refreshToken X cfg users token now =
     (case refreshToken_body X cfg users token now of
        (Inl e, users') \<Rightarrow> (Inl (Error ''Invalid refresh token''), users')
      | (Inr tokens, users') \<Rightarrow> (Inr tokens, users'))"

text \<open>
  The request bodies of \<^verbatim>\<open>/register\<close> and \<^verbatim>\<open>/login\<close> (optional keys are options; the role
  arrives as its string), and what \<^verbatim>\<open>RegisterRequestSchema\<close> and \<^verbatim>\<open>LoginRequestSchema\<close> make of
  them: the defaults \<^verbatim>\<open>role = 'developer'\<close>, \<^verbatim>\<open>timezone = 'UTC'\<close>, \<^verbatim>\<open>rememberMe = false\<close>.
\<close>

record RegisterRequest =
  rr_name :: string
  rr_email :: string
  rr_password :: string
  rr_role :: "string option"
  rr_timezone :: "string option"

record RegisterData =
  rd_name :: string
  rd_email :: string
  rd_password :: string
  rd_role :: UserRole
  rd_timezone :: string

definition RegisterRequestSchema_parse :: "externals \<Rightarrow> RegisterRequest \<Rightarrow> error + RegisterData" where
  "RegisterRequestSchema_parse X body =
     (let bad = issues
            [(''name'', 1 \<le> length (rr_name body) \<and> length (rr_name body) \<le> 100),
             (''email'', is_email X (rr_email body) \<and> length (rr_email body) \<le> 254),
             (''password'', 8 \<le> length (rr_password body) \<and> length (rr_password body) \<le> 128),
             (''role'', (case rr_role body of None \<Rightarrow> True | Some r \<Rightarrow> nativeEnum_role r \<noteq> None))]
      in if bad \<noteq> [] then Inl (ZodError bad)
         else Inr \<lparr>rd_name = rr_name body,
                   rd_email = rr_email body,
                   rd_password = rr_password body,
                   rd_role = (case rr_role body of
                                None \<Rightarrow> Developer
                              | Some r \<Rightarrow> (case nativeEnum_role r of Some x \<Rightarrow> x | None \<Rightarrow> Developer)),
                   rd_timezone = (case rr_timezone body of None \<Rightarrow> ''UTC'' | Some tz \<Rightarrow> tz)\<rparr>)"

record LoginRequest =
  lr_email :: string
  lr_password :: string
  lr_timezone :: "string option"
  lr_rememberMe :: "bool option"

record LoginData =
  ld_email :: string
  ld_password :: string
  ld_timezone :: "string option"
  ld_rememberMe :: bool

definition LoginRequestSchema_parse :: "externals \<Rightarrow> LoginRequest \<Rightarrow> error + LoginData" where
  "LoginRequestSchema_parse X body =
     (let bad = issues
            [(''email'', is_email X (lr_email body) \<and> length (lr_email body) \<le> 254),
             (''password'', 1 \<le> length (lr_password body))]
      in if bad \<noteq> [] then Inl (ZodError bad)
         else Inr \<lparr>ld_email = lr_email body,
                   ld_password = lr_password body,
                   ld_timezone = lr_timezone body,
                   ld_rememberMe = (case lr_rememberMe body of None \<Rightarrow> False | Some b \<Rightarrow> b)\<rparr>)"

text \<open>A parsed body handed on as a request: the routes parse, and the service parses again.\<close>

definition register_request_of :: "RegisterData \<Rightarrow> RegisterRequest" where
  "register_request_of d =
     \<lparr>rr_name = rd_name d, rr_email = rd_email d, rr_password = rd_password d,
      rr_role = Some (role_string (rd_role d)), rr_timezone = Some (rd_timezone d)\<rparr>"


text \<open>\<^verbatim>\<open>AuthenticatedUser\<close> and \<^verbatim>\<open>mapToAuthenticatedUser\<close>.\<close>

record AuthenticatedUser =
  au_id :: string
  au_name :: string
  au_email :: string
  au_role :: UserRole
  au_timezone :: string
  isActive :: bool
  emailVerified :: bool
  lastSeen :: "int option"
  createdAt :: int

definition mapToAuthenticatedUser :: "UserEntity \<Rightarrow> AuthenticatedUser" where
  "mapToAuthenticatedUser user =
     \<lparr>au_id = u_id user, au_name = u_name user, au_email = u_email user, au_role = u_role user,
      au_timezone = u_timezone user, isActive = is_active user,
      emailVerified = email_verified user, lastSeen = last_seen user,
      createdAt = created_at user\<rparr>"

text \<open>
  What \<^verbatim>\<open>register\<close> draws from outside: the row's \<^verbatim>\<open>uuid_generate_v4()\<close>, the salt of
  \<^verbatim>\<open>bcrypt.hash\<close> and the \<^verbatim>\<open>randomUUID()\<close> of \<^verbatim>\<open>generateSessionId\<close>.
\<close>

record drawn =
  drawn_id :: string
  drawn_salt :: string
  drawn_sessionId :: string

text \<open>\<^verbatim>\<open>AuthService.register\<close>; the \<^verbatim>\<open>catch\<close> rethrows the error as it is.\<close>

definition register ::
  "externals \<Rightarrow> config \<Rightarrow> users \<Rightarrow> RegisterRequest \<Rightarrow> drawn \<Rightarrow> int
     \<Rightarrow> (error + AuthenticatedUser \<times> AuthTokens) \<times> users" where
  "register X cfg users userData rnd now =
     (case RegisterRequestSchema_parse X userData of
        Inl e \<Rightarrow> (Inl e, users)
      | Inr validatedData \<Rightarrow>
          (case findByEmail X users (rd_email validatedData) of
             Inl e \<Rightarrow> (Inl e, users)
           | Inr (Some existingUser) \<Rightarrow> (Inl (Error ''Email already registered''), users)
           | Inr None \<Rightarrow>
               let passwordHash = bcrypt_hash X (rd_password validatedData) (BCRYPT_ROUNDS cfg)
                                    (drawn_salt rnd)
               in (case create X users
                          \<lparr>c_name = rd_name validatedData,
                           c_email = toLowerCase (rd_email validatedData),
                           c_password_hash = passwordHash,
                           c_role = rd_role validatedData,
                           c_timezone = rd_timezone validatedData\<rparr>
                          (drawn_id rnd) now of
                     (Inl e, users1) \<Rightarrow> (Inl e, users1)
                   | (Inr newUser, users1) \<Rightarrow>
                       (case generateTokens X cfg
                               (claims_of_user newUser (drawn_sessionId rnd)) False now of
                          Inl e \<Rightarrow> (Inl e, users1)
                        | Inr tokens \<Rightarrow>
                            (Inr (mapToAuthenticatedUser newUser, tokens),
                             updateLastSeen users1 (u_id newUser) now)))))"

text \<open>The timezone step of \<^verbatim>\<open>login\<close>: \<^verbatim>\<open>if (validatedData.timezone && validatedData.timezone !== user.timezone)\<close>.\<close>

definition login_timezone ::
  "externals \<Rightarrow> users \<Rightarrow> UserEntity \<Rightarrow> string option \<Rightarrow> int \<Rightarrow> (error + UserEntity) \<times> users" where
  "login_timezone X users user tz_opt now =
     (case truthy tz_opt of
        None \<Rightarrow> (Inr user, users)
      | Some tz \<Rightarrow>
          if tz = u_timezone user then (Inr user, users)
          else (case updateById_timezone X users (u_id user) tz now of
                  (Inl e, users1) \<Rightarrow> (Inl e, users1)
                | (Inr updated, users1) \<Rightarrow> (Inr (user\<lparr>u_timezone := tz\<rparr>), users1)))"

text \<open>\<^verbatim>\<open>AuthService.login\<close>; \<open>sid\<close> is the \<^verbatim>\<open>randomUUID()\<close> of \<^verbatim>\<open>generateSessionId\<close>.\<close>

definition login ::
  "externals \<Rightarrow> config \<Rightarrow> users \<Rightarrow> LoginRequest \<Rightarrow> string \<Rightarrow> int
     \<Rightarrow> (error + AuthenticatedUser \<times> AuthTokens) \<times> users" where
  "login X cfg users loginData sid now =
     (case LoginRequestSchema_parse X loginData of
        Inl e \<Rightarrow> (Inl e, users)
      | Inr validatedData \<Rightarrow>
          (case findByEmail X users (ld_email validatedData) of
             Inl e \<Rightarrow> (Inl e, users)
           | Inr None \<Rightarrow> (Inl (Error ''Invalid email or password''), users)
           | Inr (Some user) \<Rightarrow>
               if \<not> is_active user then (Inl (Error ''Account is deactivated''), users)
               else if \<not> bcrypt_compare X (ld_password validatedData) (password_hash user)
               then (Inl (Error ''Invalid email or password''), users)
               else (case login_timezone X users user (ld_timezone validatedData) now of
                       (Inl e, users1) \<Rightarrow> (Inl e, users1)
                     | (Inr user1, users1) \<Rightarrow>
                         (case generateTokens X cfg (claims_of_user user1 sid)
                                 (ld_rememberMe validatedData) now of
                            Inl e \<Rightarrow> (Inl e, users1)
                          | Inr tokens \<Rightarrow>
                              (Inr (mapToAuthenticatedUser user1, tokens),
                               updateLastSeen users1 (u_id user1) now)))))"

section \<open>The routes and the authentication middleware\<close>

text \<open>A route answers with a status, a message and data, or with an error body.\<close>

datatype 'a reply = Sent nat string 'a int | Failed nat error_body

text \<open>
  What the middleware in front of the handlers reads of a request besides its body:
  \<^verbatim>\<open>req.ip\<close>, \<^verbatim>\<open>req.connection.remoteAddress\<close> and \<^verbatim>\<open>req.query.timezone\<close>.
\<close>

record request =
  req_ip :: "string option"
  req_remoteAddress :: "string option"
  query_timezone :: "string option"

text \<open>
  The middleware \<^verbatim>\<open>validateTimezone\<close>: \<^verbatim>\<open>req.body.timezone || req.query.timezone\<close>, and, when
  that is truthy, \<^verbatim>\<open>Intl.DateTimeFormat(undefined, {timeZone})\<close>, which throws on a name it does
  not accept.
\<close>

definition validateTimezone :: "externals \<Rightarrow> string option \<Rightarrow> string option \<Rightarrow> int \<Rightarrow> unit handled" where
  "validateTimezone X body_timezone query_tz now =
     (case (case truthy body_timezone of Some tz \<Rightarrow> Some tz | None \<Rightarrow> truthy query_tz) of
        None \<Rightarrow> Next ()
      | Some tz \<Rightarrow>
          if is_timezone X tz then Next ()
          else Respond 400 \<lparr>code = ''INVALID_TIMEZONE'', message = ''Invalid timezone identifier'',
                            timestamp = now, more_fields = ProvidedTimezone tz\<rparr>)"




text \<open>The \<^verbatim>\<open>catch\<close> of the handler of \<^verbatim>\<open>POST /register\<close>.\<close>

definition register_error_reply :: "error \<Rightarrow> int \<Rightarrow> 'a reply" where
  "register_error_reply e now =
     (case e of
        ZodError paths \<Rightarrow>
          Failed 400 \<lparr>code = ''VALIDATION_ERROR'', message = ''Invalid registration data'',
                      timestamp = now, more_fields = Details paths\<rparr>
      | _ \<Rightarrow>
          if message_of e = ''Email already registered''
          then Failed 409 \<lparr>code = ''EMAIL_EXISTS'',
                           message = ''An account with this email already exists'',
                           timestamp = now, more_fields = NoExtra\<rparr>
          else Failed 500 \<lparr>code = ''REGISTRATION_FAILED'', message = ''Failed to register user'',
                           timestamp = now, more_fields = NoExtra\<rparr>)"

text \<open>The handler of \<^verbatim>\<open>POST /register\<close>.\<close>

definition register_handler ::
  "externals \<Rightarrow> config \<Rightarrow> users \<Rightarrow> RegisterRequest \<Rightarrow> drawn \<Rightarrow> int
     \<Rightarrow> (AuthenticatedUser \<times> AuthTokens) reply \<times> users" where
  "register_handler X cfg users body rnd now =
     (case RegisterRequestSchema_parse X body of
        Inl e \<Rightarrow> (register_error_reply e now, users)
      | Inr userData \<Rightarrow>
          (case register X cfg users (register_request_of userData) rnd now of
             (Inl e, users') \<Rightarrow> (register_error_reply e now, users')
           | (Inr result, users') \<Rightarrow> (Sent 201 ''User registered successfully'' result now, users')))"

text \<open>The route \<^verbatim>\<open>POST /register\<close> as the router runs it: the rate limiter of the router, then
  \<^verbatim>\<open>router.post('/register', validateTimezone, handler)\<close>.\<close>

definition post_register ::
  "externals \<Rightarrow> config \<Rightarrow> attempts \<Rightarrow> users \<Rightarrow> request \<Rightarrow> RegisterRequest \<Rightarrow> drawn \<Rightarrow> int
     \<Rightarrow> (AuthenticatedUser \<times> AuthTokens) reply \<times> users \<times> attempts" where
  "post_register X cfg attempts users req body rnd now =
     (case authRateLimit 5 (15 * 60 * 1000) attempts
             (clientId_of (req_ip req) (req_remoteAddress req)) now of
        (Respond status b, attempts') \<Rightarrow> (Failed status b, users, attempts')
      | (Next _, attempts') \<Rightarrow>
          (case validateTimezone X (rr_timezone body) (query_timezone req) now of
             Respond status b \<Rightarrow> (Failed status b, users, attempts')
           | Next _ \<Rightarrow>
               (case register_handler X cfg users body rnd now of
                  (r, users') \<Rightarrow> (r, users', attempts'))))"

text \<open>\<^verbatim>\<open>extractToken\<close> on \<^verbatim>\<open>req.headers.authorization\<close>.\<close>

definition extractToken :: "string option \<Rightarrow> string option" where
  "extractToken authorization =
     (case authorization of
        None \<Rightarrow> None
      | Some authHeader \<Rightarrow>
          if authHeader = [] then None
          else if take 7 authHeader = ''Bearer '' then Some (drop 7 authHeader)
          else Some authHeader)"

text \<open>\<^verbatim>\<open>req.user\<close> as \<^verbatim>\<open>authenticate\<close> sets it.\<close>

record req_user =
  ru_id :: string
  ru_email :: string
  ru_role :: UserRole
  ru_timezone :: string
  ru_sessionId :: string

definition missing_token :: "int \<Rightarrow> req_user handled" where
  "missing_token now =
     Respond 401 \<lparr>code = ''MISSING_TOKEN'', message = ''Authentication token is required'',
                  timestamp = now, more_fields = NoExtra\<rparr>"

definition invalid_token :: "int \<Rightarrow> req_user handled" where
  "invalid_token now =
     Respond 401 \<lparr>code = ''INVALID_TOKEN'', message = ''Invalid or expired authentication token'',
                  timestamp = now, more_fields = NoExtra\<rparr>"

text \<open>The middleware \<^verbatim>\<open>authenticate\<close> at the clock reading \<open>now\<close>; \<^verbatim>\<open>!token\<close> holds of \<^verbatim>\<open>null\<close> and of
  the empty string.\<close>

definition authenticate :: "externals \<Rightarrow> config \<Rightarrow> string option \<Rightarrow> int \<Rightarrow> req_user handled" where
  "authenticate X cfg authorization now =
     (case extractToken authorization of
        None \<Rightarrow> missing_token now
      | Some token \<Rightarrow>
          if token = [] then missing_token now
          else (case verifyAccessToken X cfg token (now div 1000) of
                  Inr payload \<Rightarrow>
                    Next \<lparr>ru_id = userId payload, ru_email = email payload, ru_role = role payload,
                          ru_timezone = timezone payload, ru_sessionId = sessionId payload\<rparr>
                | Inl e \<Rightarrow> invalid_token now))"

text \<open>The middleware \<^verbatim>\<open>requireRole(requiredRole)\<close> on \<^verbatim>\<open>req.user\<close>.\<close>

definition requireRole :: "UserRole \<Rightarrow> req_user option \<Rightarrow> int \<Rightarrow> unit handled" where
  "requireRole requiredRole user now =
     (case user of
        None \<Rightarrow>
          Respond 401 \<lparr>code = ''AUTHENTICATION_REQUIRED'',
                       message = ''Authentication is required for this endpoint'',
                       timestamp = now, more_fields = NoExtra\<rparr>
      | Some u \<Rightarrow>
          if \<not> hasPermission (ru_role u) requiredRole
          then Respond 403 \<lparr>code = ''INSUFFICIENT_PERMISSIONS'',
                            message = ''This action requires '' @ role_string requiredRole
                                      @ '' role or higher'',
                            timestamp = now, more_fields = Roles (ru_role u) requiredRole\<rparr>
          else Next ())"

section \<open>An instance of the libraries\<close>

text \<open>
  One concrete choice of the parameters, for evaluating the service on examples: a
  serialisation that writes a signed token as a string whose length codes it (any
  injective one would do), the time spans the repository uses, the 8-4-4-4-12 pattern of
  hexadecimal digits for \<^verbatim>\<open>uuid()\<close>, a shape check for \<^verbatim>\<open>email()\<close>, the time zone names the
  repository's tests and defaults use, and the parameters of node-postgres: the driver
  writes an array as a PostgreSQL array literal, \<^verbatim>\<open>{}\<close> for the empty one, which a \<^verbatim>\<open>JSONB\<close>
  column reads as the empty object, and the literal of a non-empty array is no JSON; an
  object, a number and a boolean are written as their JSON, and \<^verbatim>\<open>null\<close> as \<^verbatim>\<open>NULL\<close>; a string
  is sent as it is, and the instance takes no string to be the text of a JSON value.
\<close>

instance json :: countable
  by countable_datatype

instance jws :: countable
  by countable_datatype

definition demo_encode :: "jws \<Rightarrow> string" where
  "demo_encode j = replicate (Suc (to_nat j)) (CHR ''x'')"

definition demo_decode :: "string \<Rightarrow> jws option" where
  "demo_decode s =
     (case s of
        [] \<Rightarrow> None
      | c # r \<Rightarrow>
          if c # r = replicate (Suc (length r)) (CHR ''x'')
             \<and> to_nat (from_nat (length r) :: jws) = length r
          then Some (from_nat (length r))
          else None)"

definition demo_ms :: "string \<Rightarrow> int option" where
  "demo_ms s =
     (if s = ''15m'' then Some 900000
      else if s = ''7d'' then Some 604800000
      else if s = ''30d'' then Some 2592000000
      else if s = ''0'' then Some 0
      else if s = ''-1h'' then Some (- 3600000)
      else None)"

definition demo_is_uuid :: "string \<Rightarrow> bool" where
  "demo_is_uuid s =
     (map (\<lambda>c. if c = CHR ''-'' then CHR ''-''
                else if c \<in> set ''0123456789abcdefABCDEF'' then CHR ''h''
                else CHR ''?'') s
      = ''hhhhhhhh-hhhh-hhhh-hhhh-hhhhhhhhhhhh'')"

definition demo_is_email :: "string \<Rightarrow> bool" where
  "demo_is_email s =
     (let local_part = takeWhile (\<lambda>c. c \<noteq> CHR ''@'') s;
          rest = dropWhile (\<lambda>c. c \<noteq> CHR ''@'') s
      in local_part \<noteq> [] \<and> rest \<noteq> [] \<and> CHR ''@'' \<notin> set (tl rest) \<and> CHR ''.'' \<in> set (tl rest))"

definition demo_is_timezone :: "string \<Rightarrow> bool" where
  "demo_is_timezone tz \<longleftrightarrow>
     tz \<in> set [''UTC'', ''America/New_York'', ''America/Los_Angeles'', ''Europe/London'',
                ''Europe/Berlin'', ''Asia/Tokyo'']"

definition demo_pg_jsonb :: "jsonb \<Rightarrow> jsonb option" where
  "demo_pg_jsonb v =
     (case v of
        BArray xs \<Rightarrow> if xs = [] then Some (BObject []) else None
      | BString s \<Rightarrow> None
      | _ \<Rightarrow> Some v)"

definition demo :: externals where
  "demo =
     \<lparr>jws_encode = demo_encode,
      jws_decode = demo_decode,
      ms = demo_ms,
      bcrypt_hash = (\<lambda>password rounds salt. salt @ ''$'' @ password),
      bcrypt_compare = (\<lambda>password hash. tl (dropWhile (\<lambda>c. c \<noteq> CHR ''$'') hash) = password),
      parseInt = (\<lambda>s. if s = ''12'' then 12 else 10),
      is_uuid = demo_is_uuid,
      is_email = demo_is_email,
      is_timezone = demo_is_timezone,
      pg_jsonb = demo_pg_jsonb\<rparr>"

text \<open>
  The same instance with a driver that writes every value as its JSON, which is what the
  columns would be sent if the code passed \<^verbatim>\<open>JSON.stringify\<close> of the value.
\<close>

definition demo_json :: externals where
  "demo_json = demo\<lparr>pg_jsonb := Some\<rparr>"

text \<open>The configuration the constructor builds from the two secrets of the integration tests.\<close>

definition demo_config :: config where
  "demo_config =
     \<lparr>JWT_SECRET = ''test-jwt-secret-key'',
      JWT_REFRESH_SECRET = ''test-refresh-secret-key'',
      JWT_EXPIRES_IN = ''15m'',
      JWT_REFRESH_EXPIRES_IN = ''7d'',
      BCRYPT_ROUNDS = 12\<rparr>"

text \<open>
  Example data, after the integration tests: the user John Doe, his claims with a session
  id as \<^verbatim>\<open>randomUUID()\<close> gives it, and a login of his with the address in another case.
\<close>

definition example_claims :: claims where
  "example_claims =
     \<lparr>cl_userId = ''123e4567-e89b-12d3-a456-426614174000'',
      cl_email = ''john.doe@example.com'', cl_role = Developer,
      cl_timezone = ''America/New_York'',
      cl_sessionId = ''0b8f6a52-6f0c-4c8e-9d2a-3f1e5a7b9c01''\<rparr>"

text \<open>The default of the column \<^verbatim>\<open>preferences\<close>.\<close>

definition default_preferences :: jsonb where
  "default_preferences =
     BObject
       [(''notifications'',
         BObject [(''email'', BBool True), (''push'', BBool True), (''slack'', BBool False),
                  (''quietHours'',
                   BObject [(''enabled'', BBool False), (''startTime'', BString ''22:00''),
                            (''endTime'', BString ''08:00'')])]),
        (''theme'', BString ''light''),
        (''language'', BString ''en'')]"

definition example_user :: UserEntity where
  "example_user =
     \<lparr>u_id = ''123e4567-e89b-12d3-a456-426614174000'', u_name = ''John Doe'',
      u_email = ''john.doe@example.com'', password_hash = ''salt$SecurePassword123!'',
      u_role = Developer, u_timezone = ''America/New_York'', avatar_url = None, bio = None,
      skills = BArray [], preferences = default_preferences, is_active = True,
      email_verified = True, last_seen = None, created_at = 0, updated_at = 0\<rparr>"

text \<open>A request from the loopback address, with no query.\<close>

definition example_request :: request where
  "example_request =
     \<lparr>req_ip = Some ''127.0.0.1'', req_remoteAddress = Some ''127.0.0.1'', query_timezone = None\<rparr>"

definition example_login :: LoginRequest where
  "example_login =
     \<lparr>lr_email = ''John.Doe@Example.com'', lr_password = ''SecurePassword123!'',
      lr_timezone = None, lr_rememberMe = None\<rparr>"

text \<open>The token the instance writes for a payload signed at \<open>issued\<close> to expire at \<open>expires\<close>.\<close>

definition demo_token :: "jobject \<Rightarrow> int \<Rightarrow> int \<Rightarrow> string \<Rightarrow> string" where
  "demo_token payload issued expires secret =
     demo_encode (JWS (payload @ [(''iat'', JNumber issued), (''exp'', JNumber expires)]) secret)"

text \<open>
  The environment of the integration tests, which sets both secrets, and the same
  environment with \<^verbatim>\<open>JWT_REFRESH_SECRET\<close> left unset.
\<close>

definition test_env :: env where
  "test_env = \<lparr>env_JWT_SECRET = Some ''test-jwt-secret-key'',
      env_JWT_REFRESH_SECRET = Some ''test-refresh-secret-key'',
      env_JWT_EXPIRES_IN = None, env_JWT_REFRESH_EXPIRES_IN = None, env_BCRYPT_ROUNDS = None\<rparr>"

definition default_env :: env where
  "default_env = \<lparr>env_JWT_SECRET = Some ''test-jwt-secret-key'',
      env_JWT_REFRESH_SECRET = None,
      env_JWT_EXPIRES_IN = None, env_JWT_REFRESH_EXPIRES_IN = None, env_BCRYPT_ROUNDS = None\<rparr>"

text \<open>A registration of Alice, with the address in mixed case, and what it draws.\<close>

definition example_register :: RegisterRequest where
  "example_register =
     \<lparr>rr_name = ''Alice'', rr_email = ''Alice@Example.com'', rr_password = ''SecurePassword123!'',
      rr_role = None, rr_timezone = None\<rparr>"

definition example_drawn :: drawn where
  "example_drawn =
     \<lparr>drawn_id = ''9f1c2d3e-4b5a-4c6d-8e7f-0a1b2c3d4e5f'', drawn_salt = ''salt'',
      drawn_sessionId = ''0b8f6a52-6f0c-4c8e-9d2a-3f1e5a7b9c01''\<rparr>"

section \<open>The instance reads back what it writes\<close>

lemma demo_decode_encode: "demo_decode (demo_encode j) = Some j"
  by (simp add: demo_decode_def demo_encode_def)

lemma demo_codec_ok: "codec_ok demo"
  by (simp add: codec_ok_def demo_def demo_decode_encode) (simp add: demo_decode_def)

lemma demo_encode_not_empty: "demo_encode j \<noteq> []"
  by (simp add: demo_encode_def)

lemma demo_simps:
  "jws_encode demo = demo_encode" "jws_decode demo = demo_decode" "ms demo = demo_ms"
  "is_uuid demo = demo_is_uuid" "is_email demo = demo_is_email"
  "bcrypt_compare demo = (\<lambda>password hash. tl (dropWhile (\<lambda>c. c \<noteq> CHR ''$'') hash) = password)"
  by (simp_all add: demo_def)

lemma demo_config_simps:
  "JWT_SECRET demo_config = ''test-jwt-secret-key''"
  "JWT_REFRESH_SECRET demo_config = ''test-refresh-secret-key''"
  "JWT_EXPIRES_IN demo_config = ''15m''"
  "JWT_REFRESH_EXPIRES_IN demo_config = ''7d''"
  by (simp_all add: demo_config_def)

lemma demo_ttl:
  "ms demo (JWT_EXPIRES_IN demo_config) = Some 900000"
  "ms demo (if False then ''30d'' else JWT_REFRESH_EXPIRES_IN demo_config) = Some 604800000"
  by (simp_all add: demo_def demo_config_def demo_ms_def)

lemma example_formats:
  "demo_is_uuid ''123e4567-e89b-12d3-a456-426614174000''"
  "demo_is_uuid ''0b8f6a52-6f0c-4c8e-9d2a-3f1e5a7b9c01''"
  "demo_is_email ''john.doe@example.com''"
  "demo_is_email ''John.Doe@Example.com''"
  "toLowerCase ''John.Doe@Example.com'' = ''john.doe@example.com''"
  by (simp_all add: demo_is_uuid_def demo_is_email_def toLowerCase_def lower_char_def)

lemma demo_json_simps:
  "jws_encode demo_json = jws_encode demo" "jws_decode demo_json = jws_decode demo"
  "ms demo_json = ms demo" "is_uuid demo_json = demo_is_uuid" "is_email demo_json = demo_is_email"
  "bcrypt_hash demo_json = bcrypt_hash demo" "pg_jsonb demo_json = Some"
  by (simp_all add: demo_json_def demo_def)

lemma demo_json_codec_ok: "codec_ok demo_json"
  using demo_codec_ok by (simp add: codec_ok_def demo_json_simps)

section \<open>Properties of the role hierarchy\<close>

lemma hasPermission_iff: "hasPermission x y \<longleftrightarrow> roleHierarchy y \<le> roleHierarchy x"
  by (simp add: hasPermission_def)

lemma roleHierarchy_inj: "roleHierarchy x = roleHierarchy y \<Longrightarrow> x = y"
  by (cases x; cases y) simp_all

text \<open>
  Claim C8. \<open>hasPermission\<close> holds for (developer, stakeholder), fails for
  (stakeholder, developer) and holds for (x, x) for every role x. It is the total order
  stakeholder < product-manager < designer < developer read as "at least": reflexive,
  antisymmetric, transitive and total, with each role strictly above the one before it.
\<close>

theorem hasPermission_total_order:
  "hasPermission Developer Stakeholder \<and>
   \<not> hasPermission Stakeholder Developer \<and>
   (\<forall>x. hasPermission x x) \<and>
   (hasPermission ProductManager Stakeholder \<and> \<not> hasPermission Stakeholder ProductManager) \<and>
   (hasPermission Designer ProductManager \<and> \<not> hasPermission ProductManager Designer) \<and>
   (hasPermission Developer Designer \<and> \<not> hasPermission Designer Developer) \<and>
   (\<forall>x y. hasPermission x y \<or> hasPermission y x) \<and>
   (\<forall>x y. hasPermission x y \<and> hasPermission y x \<longrightarrow> x = y) \<and>
   (\<forall>x y z. hasPermission x y \<and> hasPermission y z \<longrightarrow> hasPermission x z)"
proof -
  have refl: "\<forall>x. hasPermission x x" by (simp add: hasPermission_iff)
  have total: "\<forall>x y. hasPermission x y \<or> hasPermission y x"
    by (auto simp: hasPermission_iff)
  have antisym: "\<forall>x y. hasPermission x y \<and> hasPermission y x \<longrightarrow> x = y"
    by (auto simp: hasPermission_iff intro: roleHierarchy_inj)
  have trans: "\<forall>x y z. hasPermission x y \<and> hasPermission y z \<longrightarrow> hasPermission x z"
    by (auto simp: hasPermission_iff)
  show ?thesis
    using refl total antisym trans by (simp add: hasPermission_iff)
qed

text \<open>The order at three roles: transitivity from developer through designer to stakeholder.\<close>

theorem hasPermission_total_order_witness:
  "hasPermission Developer Designer \<and> hasPermission Designer Stakeholder \<and>
   hasPermission Developer Stakeholder \<and> Developer \<noteq> Stakeholder"
proof -
  have a: "hasPermission Developer Designer" and b: "hasPermission Designer Stakeholder"
    by (simp_all add: hasPermission_def)
  have "hasPermission Developer Stakeholder"
    using hasPermission_total_order a b by blast
  then show ?thesis using a b by simp
qed

section \<open>The rate limiter: one window of one client\<close>

lemma authRateLimit_first:
  "sweep now a c = None \<Longrightarrow>
   authRateLimit m W a c now = (Next (), (sweep now a)(c \<mapsto> \<lparr>count = 1, resetTime = now + W\<rparr>))"
  by (simp add: authRateLimit_def)

lemma authRateLimit_live:
  "a c = Some e \<Longrightarrow> now \<le> resetTime e \<Longrightarrow>
   authRateLimit m W a c now =
     (if count e \<ge> m then (rate_limited (resetTime e) now, sweep now a)
      else (Next (), (sweep now a)(c \<mapsto> e\<lparr>count := count e + 1\<rparr>)))"
  by (simp add: authRateLimit_def sweep_def rate_limited_def)

text \<open>A call of another client inside the window leaves the client's entry as it is.\<close>

lemma authRateLimit_other_client:
  "d \<noteq> c \<Longrightarrow> a c = Some e \<Longrightarrow> now \<le> resetTime e \<Longrightarrow>
   snd (authRateLimit m W a d now) c = Some e"
  by (auto simp: authRateLimit_def sweep_def Let_def split: option.splits)

lemma calls_in_window:
  "a c = Some \<lparr>count = k, resetTime = r\<rparr> \<Longrightarrow> \<forall>t\<in>set ts. t \<le> r \<Longrightarrow>
   length (fst (calls m W c a ts)) = length ts \<and>
   (\<forall>j<length ts. fst (calls m W c a ts) ! j =
       (if k + int j < m then Next () else rate_limited r (ts ! j))) \<and>
   (\<exists>k'. snd (calls m W c a ts) c = Some \<lparr>count = k', resetTime = r\<rparr>)"
proof (induction ts arbitrary: a k)
  case Nil
  then show ?case by simp
next
  case (Cons t ts)
  have tr: "t \<le> r" using Cons.prems(2) by simp
  obtain o1 a1 where step: "authRateLimit m W a c t = (o1, a1)" by force
  obtain k1 where a1: "a1 c = Some \<lparr>count = k1, resetTime = r\<rparr>"
    and o1: "o1 = (if k < m then Next () else rate_limited r t)"
    and k1: "k1 = (if k < m then k + 1 else k)"
    using step authRateLimit_live [of a c "\<lparr>count = k, resetTime = r\<rparr>" t m W] tr Cons.prems(1)
    by (auto simp: sweep_def split: if_splits)
  have rest: "\<forall>t\<in>set ts. t \<le> r" using Cons.prems(2) by simp
  have IH: "length (fst (calls m W c a1 ts)) = length ts \<and>
   (\<forall>j<length ts. fst (calls m W c a1 ts) ! j =
       (if k1 + int j < m then Next () else rate_limited r (ts ! j))) \<and>
   (\<exists>k'. snd (calls m W c a1 ts) c = Some \<lparr>count = k', resetTime = r\<rparr>)"
    using Cons.IH [of a1 k1] a1 rest by blast
  obtain rs fin where c1: "calls m W c a1 ts = (rs, fin)" by force
  have c: "calls m W c a (t # ts) = (o1 # rs, fin)" by (simp add: step c1)
  show ?case
  proof (intro conjI allI impI)
    show "length (fst (calls m W c a (t # ts))) = length (t # ts)"
      using IH c c1 by simp
  next
    fix j assume j: "j < length (t # ts)"
    show "fst (calls m W c a (t # ts)) ! j =
            (if k + int j < m then Next () else rate_limited r ((t # ts) ! j))"
    proof (cases j)
      case 0
      then show ?thesis using c o1 by simp
    next
      case (Suc i)
      then have "i < length ts" using j by simp
      then have "rs ! i = (if k1 + int i < m then Next () else rate_limited r (ts ! i))"
        using IH c1 by simp
      moreover have "(k1 + int i < m) = (k + int (Suc i) < m)"
        using k1 by auto
      ultimately show ?thesis using c Suc by simp
    qed
  next
    show "\<exists>k'. snd (calls m W c a (t # ts)) c = Some \<lparr>count = k', resetTime = r\<rparr>"
      using IH c c1 by simp
  qed
qed

lemma ceil_seconds_sign: "0 \<le> x \<Longrightarrow> 0 \<le> ceil_seconds x \<and> (0 < ceil_seconds x \<longleftrightarrow> 0 < x)"
proof -
  assume "0 \<le> x"
  then have "(- x) div 1000 \<le> 0" by (simp add: div_nonpos_pos_le0)
  moreover have "((- x) div 1000 < 0) = (- x < 0)" by (rule pos_imp_zdiv_neg_iff) simp
  ultimately show ?thesis unfolding ceil_seconds_def by simp
qed

text \<open>\<open>ceil_seconds\<close> is \<^verbatim>\<open>Math.ceil(x / 1000)\<close>: the ceiling of the real quotient.\<close>

lemma ceil_seconds_ceiling: "ceil_seconds x = \<lceil>real_of_int x / 1000\<rceil>"
  unfolding ceil_seconds_def ceiling_def
  by (metis floor_divide_of_int_eq of_int_minus of_int_numeral minus_divide_left)

text \<open>
  Claim C1, as the code has it. A client with no live entry calls at \<open>t0\<close>, which opens the
  window that resets at \<open>t0 + W\<close>, and calls again at the times \<open>ts\<close>, none of them past
  the reset time. With \<open>maxAttempts = 5\<close> the first five calls are let through and every
  later one is answered 429 \<open>RATE_LIMIT_EXCEEDED\<close> with
  \<open>retryAfter = ceil ((t0 + W - now) / 1000)\<close>. That number is never negative, and it is
  positive exactly when \<open>now\<close> is before the reset time: a call at the reset time itself is
  still rejected, with \<open>retryAfter = 0\<close>. The first call after the reset time is let
  through, and the client's entry is then \<open>count = 1\<close> with a new window.
\<close>

theorem authRateLimit_window:
  assumes fresh: "sweep t0 a c = None"
    and inwin: "\<forall>t\<in>set ts. t \<le> t0 + W"
  shows "length (fst (calls 5 W c a (t0 # ts))) = length (t0 # ts) \<and>
    (\<forall>j<length (t0 # ts). fst (calls 5 W c a (t0 # ts)) ! j =
        (if j < 5 then Next () else rate_limited (t0 + W) ((t0 # ts) ! j))) \<and>
    (\<forall>t\<in>set ts. 0 \<le> ceil_seconds (t0 + W - t) \<and> (0 < ceil_seconds (t0 + W - t) \<longleftrightarrow> t < t0 + W)) \<and>
    (\<forall>t'. t0 + W < t' \<longrightarrow>
        authRateLimit 5 W (snd (calls 5 W c a (t0 # ts))) c t' =
          (Next (), (sweep t' (snd (calls 5 W c a (t0 # ts))))(c \<mapsto> \<lparr>count = 1, resetTime = t' + W\<rparr>)))"
proof -
  let ?a1 = "(sweep t0 a)(c \<mapsto> \<lparr>count = 1, resetTime = t0 + W\<rparr>)"
  have first: "authRateLimit 5 W a c t0 = (Next (), ?a1)"
    using fresh by (rule authRateLimit_first)
  have a1: "?a1 c = Some \<lparr>count = 1, resetTime = t0 + W\<rparr>" by simp
  have rest: "length (fst (calls 5 W c ?a1 ts)) = length ts \<and>
     (\<forall>j<length ts. fst (calls 5 W c ?a1 ts) ! j =
        (if 1 + int j < 5 then Next () else rate_limited (t0 + W) (ts ! j))) \<and>
     (\<exists>k'. snd (calls 5 W c ?a1 ts) c = Some \<lparr>count = k', resetTime = t0 + W\<rparr>)"
    using calls_in_window [of ?a1 c 1 "t0 + W" ts 5 W] a1 inwin by blast
  obtain rs fin where c1: "calls 5 W c ?a1 ts = (rs, fin)" by force
  have c: "calls 5 W c a (t0 # ts) = (Next () # rs, fin)" by (simp add: first c1)
  have len: "length (fst (calls 5 W c a (t0 # ts))) = length (t0 # ts)"
    using rest c c1 by simp
  have nth: "\<forall>j<length (t0 # ts). fst (calls 5 W c a (t0 # ts)) ! j =
        (if j < 5 then Next () else rate_limited (t0 + W) ((t0 # ts) ! j))"
  proof (intro allI impI)
    fix j assume j: "j < length (t0 # ts)"
    show "fst (calls 5 W c a (t0 # ts)) ! j =
        (if j < 5 then Next () else rate_limited (t0 + W) ((t0 # ts) ! j))"
    proof (cases j)
      case 0
      then show ?thesis using c by simp
    next
      case (Suc i)
      then have "i < length ts" using j by simp
      then have "rs ! i = (if 1 + int i < 5 then Next () else rate_limited (t0 + W) (ts ! i))"
        using rest c1 by simp
      moreover have "(1 + int i < 5) = (Suc i < 5)" by auto
      ultimately show ?thesis using c Suc by simp
    qed
  qed
  have retry: "\<forall>t\<in>set ts. 0 \<le> ceil_seconds (t0 + W - t) \<and> (0 < ceil_seconds (t0 + W - t) \<longleftrightarrow> t < t0 + W)"
  proof
    fix t assume "t \<in> set ts"
    then have "0 \<le> t0 + W - t" using inwin by simp
    from ceil_seconds_sign [OF this]
    show "0 \<le> ceil_seconds (t0 + W - t) \<and> (0 < ceil_seconds (t0 + W - t) \<longleftrightarrow> t < t0 + W)"
      by simp
  qed
  have after: "\<forall>t'. t0 + W < t' \<longrightarrow>
        authRateLimit 5 W (snd (calls 5 W c a (t0 # ts))) c t' =
          (Next (), (sweep t' (snd (calls 5 W c a (t0 # ts))))(c \<mapsto> \<lparr>count = 1, resetTime = t' + W\<rparr>))"
  proof (intro allI impI)
    fix t' assume late: "t0 + W < t'"
    obtain k' where fin: "fin c = Some \<lparr>count = k', resetTime = t0 + W\<rparr>"
      using rest c1 by auto
    have "sweep t' fin c = None" using fin late by (simp add: sweep_def)
    then show "authRateLimit 5 W (snd (calls 5 W c a (t0 # ts))) c t' =
          (Next (), (sweep t' (snd (calls 5 W c a (t0 # ts))))(c \<mapsto> \<lparr>count = 1, resetTime = t' + W\<rparr>))"
      using c by (simp add: authRateLimit_first)
  qed
  show ?thesis using len nth retry after by blast
qed

text \<open>The theorem at seven calls of one client in a window of 15 minutes.\<close>

theorem authRateLimit_window_witness:
  "fst (calls 5 900000 ''10.0.0.1'' Map.empty [0, 1000, 2000, 3000, 4000, 5000, 899999]) ! 0 = Next ()
   \<and> fst (calls 5 900000 ''10.0.0.1'' Map.empty [0, 1000, 2000, 3000, 4000, 5000, 899999]) ! 4 = Next ()
   \<and> fst (calls 5 900000 ''10.0.0.1'' Map.empty [0, 1000, 2000, 3000, 4000, 5000, 899999]) ! 5
         = rate_limited 900000 5000
   \<and> fst (calls 5 900000 ''10.0.0.1'' Map.empty [0, 1000, 2000, 3000, 4000, 5000, 899999]) ! 6
         = rate_limited 900000 899999
   \<and> 0 < ceil_seconds (900000 - 899999)
   \<and> fst (authRateLimit 5 900000
        (snd (calls 5 900000 ''10.0.0.1'' Map.empty [0, 1000, 2000, 3000, 4000, 5000, 899999]))
        ''10.0.0.1'' 900001) = Next ()
   \<and> snd (authRateLimit 5 900000
        (snd (calls 5 900000 ''10.0.0.1'' Map.empty [0, 1000, 2000, 3000, 4000, 5000, 899999]))
        ''10.0.0.1'' 900001) ''10.0.0.1'' = Some \<lparr>count = 1, resetTime = 1800001\<rparr>"
proof -
  let ?ts = "[1000, 2000, 3000, 4000, 5000, 899999 :: int]"
  let ?run = "calls 5 900000 ''10.0.0.1'' Map.empty (0 # ?ts)"
  have fresh: "sweep 0 Map.empty ''10.0.0.1'' = None" by (simp add: sweep_def)
  have inwin: "\<forall>t\<in>set ?ts. t \<le> 0 + 900000" by simp
  note w = authRateLimit_window [OF fresh inwin]
  have nth: "\<And>j. j < 7 \<Longrightarrow> fst ?run ! j =
      (if j < 5 then Next () else rate_limited (0 + 900000) ((0 # ?ts) ! j))"
    using w by simp
  have retry: "0 < ceil_seconds (0 + 900000 - 899999)"
    using w by simp
  have after: "authRateLimit 5 900000 (snd ?run) ''10.0.0.1'' 900001 =
      (Next (), (sweep 900001 (snd ?run))(''10.0.0.1'' \<mapsto> \<lparr>count = 1, resetTime = 900001 + 900000\<rparr>))"
    using w by simp
  show ?thesis
    using nth [of 0] nth [of 4] nth [of 5] nth [of 6] retry after by simp
qed

text \<open>
  The sixth call of a window, made at the very millisecond the window resets, is rejected
  with \<open>retryAfter = 0\<close>: claim C1 as stated (\<open>retryAfter > 0\<close> for every rejected call of
  the window) fails there.
\<close>

theorem authRateLimit_boundary_counterexample:
  "fst (calls 5 900000 ''10.0.0.1'' Map.empty [0, 1000, 2000, 3000, 4000, 900000]) ! 5
     = Respond 429
         \<lparr>code = ''RATE_LIMIT_EXCEEDED'',
          message = ''Too many authentication attempts. Please try again later.'',
          timestamp = 900000,
          more_fields = RetryAfter 0\<rparr>"
  by (simp add: authRateLimit_def sweep_def ceil_seconds_def)

section \<open>Rows that pass the schema\<close>

lemma validateData_row_Inr:
  "validateData_row X row = Inr r \<longleftrightarrow>
     (\<exists>parsed. UserEntity_preferences (preferences row) = Some parsed \<and>
               r = row\<lparr>preferences := parsed\<rparr>) \<and>
     is_uuid X (u_id row) \<and> is_email X (u_email row) \<and> z_array_string (skills row) \<noteq> None"
  by (auto simp: validateData_row_def issues_def Let_def)

lemma validateData_row_fields:
  "validateData_row X row = Inr r \<Longrightarrow>
     u_id r = u_id row \<and> u_email r = u_email row \<and> u_role r = u_role row \<and>
     u_timezone r = u_timezone row \<and> u_name r = u_name row \<and>
     password_hash r = password_hash row \<and> is_active r = is_active row \<and>
     is_uuid X (u_id r) \<and> is_email X (u_email r)"
  by (auto simp: validateData_row_Inr)


lemma findById_Some:
  "findById X users i = Inr (Some u) \<Longrightarrow>
     u_id u = i \<and> is_uuid X (u_id u) \<and> is_email X (u_email u)"
proof -
  assume a: "findById X users i = Inr (Some u)"
  then obtain row rest where f: "filter (\<lambda>u. u_id u = i) users = row # rest"
    by (auto simp: findById_def split: list.splits)
  then have v: "validateData_row X row = Inr u"
    using a by (cases "validateData_row X row") (auto simp: findById_def)
  have "row \<in> set (filter (\<lambda>u. u_id u = i) users)" using f by simp
  then show ?thesis using validateData_row_fields [OF v] by auto
qed



lemma findByEmail_Some:
  "findByEmail X users address = Inr (Some u) \<Longrightarrow>
     u_email u = toLowerCase address \<and> is_active u \<and> is_uuid X (u_id u) \<and> is_email X (u_email u)"
proof -
  assume a: "findByEmail X users address = Inr (Some u)"
  then obtain row rest where
    f: "filter (\<lambda>u. u_email u = toLowerCase address \<and> is_active u) users = row # rest"
    by (auto simp: findByEmail_def split: list.splits)
  then have v: "validateData_row X row = Inr u"
    using a by (cases "validateData_row X row") (auto simp: findByEmail_def)
  have "row \<in> set (filter (\<lambda>u. u_email u = toLowerCase address \<and> is_active u) users)"
    using f by simp
  then show ?thesis using validateData_row_fields [OF v] by auto
qed

lemma default_preferences_parse:
  "UserEntity_preferences default_preferences = Some default_preferences"
  by (simp add: UserEntity_preferences_def NotificationPreferences_def default_preferences_def
      z_object_def z_required_def z_optional_def z_boolean_default_def z_string_default_def
      z_string_optional_def z_enum_default_def)

lemma example_user_valid: "validateData_row demo example_user = Inr example_user"
  by (simp add: validateData_row_def issues_def default_preferences_parse z_array_string_def
      demo_simps(4,5))
     (simp add: example_user_def example_formats default_preferences_parse z_array_string_def)

lemma default_create_preferences:
  "CreateUser_preferences (BObject []) =
     Some (BObject
       [(''notifications'',
         BObject [(''email'', BBool True), (''push'', BBool True), (''slack'', BBool False)]),
        (''theme'', BString ''light''),
        (''language'', BString ''en'')])"
  by (simp add: CreateUser_preferences_def NotificationPreferences_def z_object_def z_default_def
      z_optional_def z_boolean_default_def z_string_default_def z_enum_default_def)

section \<open>Signing and verifying\<close>

lemma nativeEnum_role_string: "nativeEnum_role (role_string r) = Some r"
  by (cases r) (simp_all add: nativeEnum_role_def)

lemma encode_not_empty: "codec_ok X \<Longrightarrow> jws_encode X j \<noteq> []"
  unfolding codec_ok_def by (metis option.distinct(1))

lemma decode_encode: "codec_ok X \<Longrightarrow> jws_decode X (jws_encode X j) = Some j"
  by (simp add: codec_ok_def)

lemma jwt_sign_ok:
  "ms X ex = Some m \<Longrightarrow>
   jwt_sign X p k ex t =
     Inr (jws_encode X (JWS (p @ [(''iat'', JNumber t), (''exp'', JNumber (t + m div 1000))]) k))"
  by (simp add: jwt_sign_def)

lemma map_of_access_exp:
  "map_of (accessTokenPayload c @ [(''iat'', JNumber i), (''exp'', JNumber e)]) ''exp'' = Some (JNumber e)"
  by (simp add: accessTokenPayload_def)

lemma map_of_refresh_exp:
  "map_of (refreshTokenPayload c @ [(''iat'', JNumber i), (''exp'', JNumber e)]) ''exp'' = Some (JNumber e)"
  by (simp add: refreshTokenPayload_def)


lemma map_of_access_nbf:
  "map_of (accessTokenPayload c @ [(''iat'', JNumber i), (''exp'', JNumber e)]) ''nbf'' = None"
  by (simp add: accessTokenPayload_def)

lemma map_of_refresh_nbf:
  "map_of (refreshTokenPayload c @ [(''iat'', JNumber i), (''exp'', JNumber e)]) ''nbf'' = None"
  by (simp add: refreshTokenPayload_def)

lemma jwt_verify_signed:
  assumes "codec_ok X" and "map_of p ''nbf'' = None" and "map_of p ''exp'' = Some (JNumber e)"
  shows "jwt_verify X (jws_encode X (JWS p k)) k' t =
           (if k \<noteq> k' then Inl (JsonWebTokenError ''invalid signature'')
            else if e \<le> t then Inl TokenExpiredError else Inr p)"
  using assms by (simp add: jwt_verify_def nbf_error_def exp_error_def encode_not_empty decode_encode)

lemma jwt_verify_encoded:
  "codec_ok X \<Longrightarrow>
   jwt_verify X (jws_encode X (JWS p k)) k' t =
     (if k \<noteq> k' then Inl (JsonWebTokenError ''invalid signature'')
      else case nbf_error (map_of p ''nbf'') t of
             Some e \<Rightarrow> Inl e
           | None \<Rightarrow> (case exp_error (map_of p ''exp'') t of Some e \<Rightarrow> Inl e | None \<Rightarrow> Inr p))"
  by (simp add: jwt_verify_def encode_not_empty decode_encode split: option.splits)

lemma jwt_verify_encoded_Inr:
  "codec_ok X \<Longrightarrow> jwt_verify X (jws_encode X (JWS p k)) k' t = Inr q \<Longrightarrow> q = p"
  by (auto simp: jwt_verify_encoded split: if_splits option.splits)

lemma parse_access:
  "JWTPayloadSchema_parse X (accessTokenPayload c @ [(''iat'', JNumber i), (''exp'', JNumber e)]) =
     (if is_uuid X (cl_userId c) \<and> is_email X (cl_email c) \<and> is_uuid X (cl_sessionId c)
      then Inr \<lparr>userId = cl_userId c, email = cl_email c, role = cl_role c,
                timezone = cl_timezone c, sessionId = cl_sessionId c, iat = i, exp_at = e\<rparr>
      else Inl (ZodError (issues
            [(''userId'', is_uuid X (cl_userId c)),
             (''email'', is_email X (cl_email c)),
             (''sessionId'', is_uuid X (cl_sessionId c))])))"
  by (simp add: JWTPayloadSchema_parse_def JWTPayloadSchema_def shape_issues_def
      accessTokenPayload_def issues_def z_string_def
      z_string_uuid_def z_string_email_def z_role_def z_number_def the_role_def
      nativeEnum_role_string Let_def)

lemma parse_refresh:
  "RefreshTokenPayloadSchema_parse X (refreshTokenPayload c @ [(''iat'', JNumber i), (''exp'', JNumber e)]) =
     (if is_uuid X (cl_userId c) \<and> is_uuid X (cl_sessionId c)
      then Inr \<lparr>rt_userId = cl_userId c, rt_sessionId = cl_sessionId c, tokenVersion = 1,
                rt_iat = i, rt_exp = e\<rparr>
      else Inl (ZodError (issues
            [(''userId'', is_uuid X (cl_userId c)),
             (''sessionId'', is_uuid X (cl_sessionId c))])))"
  by (simp add: RefreshTokenPayloadSchema_parse_def RefreshTokenPayloadSchema_def shape_issues_def
      refreshTokenPayload_def issues_def
      z_string_uuid_def z_number_def Let_def)

lemma generateTokens_ok:
  assumes "codec_ok X"
    and "ms X (JWT_EXPIRES_IN cfg) = Some a"
    and "ms X (if longLived then ''30d'' else JWT_REFRESH_EXPIRES_IN cfg) = Some b"
  shows "generateTokens X cfg c longLived now =
     Inr \<lparr>accessToken = jws_encode X (JWS (accessTokenPayload c @
                 [(''iat'', JNumber (now div 1000)), (''exp'', JNumber (now div 1000 + a div 1000))])
                 (JWT_SECRET cfg)),
          refresh_token = jws_encode X (JWS (refreshTokenPayload c @
                 [(''iat'', JNumber (now div 1000)), (''exp'', JNumber (now div 1000 + b div 1000))])
                 (JWT_REFRESH_SECRET cfg)),
          expiresIn = a div 1000,
          tokenType = ''Bearer''\<rparr>"
  using assms
  by (simp add: generateTokens_def jwt_sign_ok jwt_decode_def decode_encode map_of_access_exp Let_def
      del: map_of_append)

lemma verifyAccessToken_signed:
  assumes "codec_ok X"
  shows "verifyAccessToken X cfg
           (jws_encode X (JWS (accessTokenPayload c @ [(''iat'', JNumber i), (''exp'', JNumber e)]) k)) t =
         (if k = JWT_SECRET cfg \<and> t < e \<and> is_uuid X (cl_userId c) \<and> is_email X (cl_email c)
             \<and> is_uuid X (cl_sessionId c)
          then Inr \<lparr>userId = cl_userId c, email = cl_email c, role = cl_role c,
                    timezone = cl_timezone c, sessionId = cl_sessionId c, iat = i, exp_at = e\<rparr>
          else Inl (Error ''Invalid access token''))"
  using assms
  by (simp add: verifyAccessToken_def jwt_verify_signed [OF _ map_of_access_nbf map_of_access_exp] parse_access)

lemma verifyRefreshPayload_signed:
  assumes "codec_ok X" and "k = JWT_REFRESH_SECRET cfg" and "t < e"
    and "is_uuid X (cl_userId c)" and "is_uuid X (cl_sessionId c)"
  shows "verifyRefreshPayload X cfg
           (jws_encode X (JWS (refreshTokenPayload c @ [(''iat'', JNumber i), (''exp'', JNumber e)]) k)) t =
         Inr \<lparr>rt_userId = cl_userId c, rt_sessionId = cl_sessionId c, tokenVersion = 1,
              rt_iat = i, rt_exp = e\<rparr>"
  using assms
  by (simp add: verifyRefreshPayload_def jwt_verify_signed [OF _ map_of_refresh_nbf map_of_refresh_exp] parse_refresh)

section \<open>Expired tokens\<close>

lemma verifyAccessToken_error:
  "verifyAccessToken X cfg tok t = Inl err \<Longrightarrow> err = Error ''Invalid access token''"
  by (auto simp: verifyAccessToken_def split: sum.splits)

lemma jwt_verify_expired:
  "jws_decode X tok = Some j \<Longrightarrow> map_of (jws_payload j) ''exp'' = Some (JNumber e) \<Longrightarrow> e \<le> t \<Longrightarrow>
   \<exists>err. jwt_verify X tok k t = Inl err"
  by (auto simp: jwt_verify_def exp_error_def split: option.splits)

lemma refreshToken_error:
  "fst (refreshToken X cfg users tok now) = Inl err \<Longrightarrow> err = Error ''Invalid refresh token''"
  by (auto simp: refreshToken_def split: prod.splits sum.splits)

lemma verifyAccessToken_expired:
  "jws_decode X tok = Some j \<Longrightarrow> map_of (jws_payload j) ''exp'' = Some (JNumber e) \<Longrightarrow> e \<le> t \<Longrightarrow>
   verifyAccessToken X cfg tok t = Inl (Error ''Invalid access token'')"
  using jwt_verify_expired [of X tok j e t "JWT_SECRET cfg"]
  by (auto simp: verifyAccessToken_def)

lemma refreshToken_expired:
  "jws_decode X tok = Some j \<Longrightarrow> map_of (jws_payload j) ''exp'' = Some (JNumber e) \<Longrightarrow>
   e \<le> now div 1000 \<Longrightarrow>
   refreshToken X cfg users tok now = (Inl (Error ''Invalid refresh token''), users)"
  using jwt_verify_expired [of X tok j e "now div 1000" "JWT_REFRESH_SECRET cfg"]
  by (auto simp: refreshToken_def refreshToken_body_def verifyRefreshPayload_def)

lemma zero_ttl_tokens:
  assumes c: "codec_ok X" and a: "ms X (JWT_EXPIRES_IN cfg) = Some 0"
    and b: "ms X (if longLived then ''30d'' else JWT_REFRESH_EXPIRES_IN cfg) = Some 0"
    and t: "now div 1000 \<le> t"
  shows "\<not> isl (generateTokens X cfg c longLived now) \<and>
      verifyAccessToken X cfg (accessToken (projr (generateTokens X cfg c longLived now))) t
        = Inl (Error ''Invalid access token'') \<and>
      refreshToken X cfg users (refresh_token (projr (generateTokens X cfg c longLived now))) (1000 * t)
        = (Inl (Error ''Invalid refresh token''), users)"
proof -
  note gen = generateTokens_ok [OF c a b, of c now]
  let ?j = "JWS (refreshTokenPayload c @
           [(''iat'', JNumber (now div 1000)), (''exp'', JNumber (now div 1000 + 0 div 1000))])
           (JWT_REFRESH_SECRET cfg)"
  have "refreshToken X cfg users (jws_encode X ?j) (1000 * t)
          = (Inl (Error ''Invalid refresh token''), users)"
    by (rule refreshToken_expired [where j = ?j and e = "now div 1000"])
      (use t in \<open>simp_all add: decode_encode [OF c] map_of_refresh_exp del: map_of_append\<close>)
  then show ?thesis
    using t by (simp add: gen verifyAccessToken_signed [OF c])
qed


text \<open>
  Claim C5, as the code has it. A token whose \<^verbatim>\<open>exp\<close> is not after the clock fails
  \<^verbatim>\<open>verifyAccessToken\<close> with \<^verbatim>\<open>Error('Invalid access token')\<close> and \<^verbatim>\<open>refreshToken\<close> with
  \<^verbatim>\<open>Error('Invalid refresh token')\<close>, the store untouched; so do the tokens issued with a time
  span of 0, from the second they are issued. These are the errors of every other failed
  verification: neither operation ever fails with \<^verbatim>\<open>TokenExpiredError\<close>, which \<^verbatim>\<open>jwt.verify\<close>
  throws and the \<^verbatim>\<open>catch\<close> replaces.
\<close>

theorem expired_token_generic_error:
  "(jws_decode X tok = Some j \<and> map_of (jws_payload j) ''exp'' = Some (JNumber e) \<and> e \<le> t \<longrightarrow>
      verifyAccessToken X cfg tok t = Inl (Error ''Invalid access token'')) \<and>
   (jws_decode X tok = Some j \<and> map_of (jws_payload j) ''exp'' = Some (JNumber e) \<and> e \<le> now div 1000 \<longrightarrow>
      refreshToken X cfg users tok now = (Inl (Error ''Invalid refresh token''), users)) \<and>
   (codec_ok X \<and> ms X (JWT_EXPIRES_IN cfg) = Some 0
      \<and> ms X (if longLived then ''30d'' else JWT_REFRESH_EXPIRES_IN cfg) = Some 0 \<and> now div 1000 \<le> t \<longrightarrow>
      \<not> isl (generateTokens X cfg c longLived now) \<and>
      verifyAccessToken X cfg (accessToken (projr (generateTokens X cfg c longLived now))) t
        = Inl (Error ''Invalid access token'') \<and>
      refreshToken X cfg users (refresh_token (projr (generateTokens X cfg c longLived now))) (1000 * t)
        = (Inl (Error ''Invalid refresh token''), users)) \<and>
   verifyAccessToken X cfg tok t \<noteq> Inl TokenExpiredError \<and>
   fst (refreshToken X cfg users tok now) \<noteq> Inl TokenExpiredError"
proof -
  have kinds: "verifyAccessToken X cfg tok t \<noteq> Inl TokenExpiredError"
    "fst (refreshToken X cfg users tok now) \<noteq> Inl TokenExpiredError"
    using verifyAccessToken_error [of X cfg tok t TokenExpiredError]
      refreshToken_error [of X cfg users tok now TokenExpiredError] by auto
  show ?thesis
    using verifyAccessToken_expired [of X tok j e t cfg]
      refreshToken_expired [of X tok j e now cfg users]
      zero_ttl_tokens [of X cfg longLived now t c users] kinds
    by blast
qed

lemma demo_token_decode:
  "jws_decode demo (demo_token p i e k) = Some (JWS (p @ [(''iat'', JNumber i), (''exp'', JNumber e)]) k)"
  by (simp add: demo_token_def demo_simps demo_decode_encode)

lemma demo_token_encode:
  "demo_token p i e k = jws_encode demo (JWS (p @ [(''iat'', JNumber i), (''exp'', JNumber e)]) k)"
  by (simp add: demo_token_def demo_simps)


text \<open>The theorem at John Doe's tokens, each at the second it expires.\<close>

theorem expired_token_generic_error_witness:
  "verifyAccessToken demo demo_config
     (demo_token (accessTokenPayload example_claims) 1700000000 1700000900 ''test-jwt-secret-key'')
     1700000900 = Inl (Error ''Invalid access token'') \<and>
   refreshToken demo demo_config [example_user]
     (demo_token (refreshTokenPayload example_claims) 1700000000 1700604800 ''test-refresh-secret-key'')
     1700604800000 = (Inl (Error ''Invalid refresh token''), [example_user])"
proof -
  have a: "jws_decode demo
        (demo_token (accessTokenPayload example_claims) 1700000000 1700000900 ''test-jwt-secret-key'')
      = Some (JWS (accessTokenPayload example_claims @
                 [(''iat'', JNumber 1700000000), (''exp'', JNumber 1700000900)]) ''test-jwt-secret-key'') \<and>
      map_of (jws_payload (JWS (accessTokenPayload example_claims @
                 [(''iat'', JNumber 1700000000), (''exp'', JNumber 1700000900)]) ''test-jwt-secret-key''))
        ''exp'' = Some (JNumber 1700000900) \<and> (1700000900 :: int) \<le> 1700000900"
    by (simp add: demo_token_decode map_of_access_exp del: map_of_append)
  have r: "jws_decode demo
        (demo_token (refreshTokenPayload example_claims) 1700000000 1700604800 ''test-refresh-secret-key'')
      = Some (JWS (refreshTokenPayload example_claims @
                 [(''iat'', JNumber 1700000000), (''exp'', JNumber 1700604800)]) ''test-refresh-secret-key'') \<and>
      map_of (jws_payload (JWS (refreshTokenPayload example_claims @
                 [(''iat'', JNumber 1700000000), (''exp'', JNumber 1700604800)]) ''test-refresh-secret-key''))
        ''exp'' = Some (JNumber 1700604800) \<and> (1700604800 :: int) \<le> 1700604800000 div 1000"
    by (simp add: demo_token_decode map_of_refresh_exp del: map_of_append)
  show ?thesis
    using expired_token_generic_error
        [of demo "demo_token (accessTokenPayload example_claims) 1700000000 1700000900 ''test-jwt-secret-key''"
            "JWS (accessTokenPayload example_claims @
                 [(''iat'', JNumber 1700000000), (''exp'', JNumber 1700000900)]) ''test-jwt-secret-key''"
            1700000900 1700000900 demo_config] a
      expired_token_generic_error
        [of demo "demo_token (refreshTokenPayload example_claims) 1700000000 1700604800 ''test-refresh-secret-key''"
            "JWS (refreshTokenPayload example_claims @
                 [(''iat'', JNumber 1700000000), (''exp'', JNumber 1700604800)]) ''test-refresh-secret-key''"
            1700604800 _ _ 1700604800000 "[example_user]"] r
    by blast
qed


text \<open>
  Claim C5 as stated: \<^verbatim>\<open>jwt.verify\<close> reports the expiry of an expired, well signed access
  token, and \<^verbatim>\<open>verifyAccessToken\<close> fails on it with the error it gives for a string that is
  no token at all.
\<close>

theorem expired_token_counterexample:
  "jwt_verify demo
     (demo_token (accessTokenPayload example_claims) 1700000000 1700000900 ''test-jwt-secret-key'')
     (JWT_SECRET demo_config) 1700000900 = Inl TokenExpiredError \<and>
   verifyAccessToken demo demo_config
     (demo_token (accessTokenPayload example_claims) 1700000000 1700000900 ''test-jwt-secret-key'')
     1700000900 = Inl (Error ''Invalid access token'') \<and>
   verifyAccessToken demo demo_config ''invalid-token'' 1700000900
     = Inl (Error ''Invalid access token'')"
proof -
  have bad: "demo_decode ''invalid-token'' = None"
    by (simp add: demo_decode_def)
  show ?thesis
    by (simp add: demo_token_encode jwt_verify_signed [OF demo_codec_ok map_of_access_nbf map_of_access_exp]
        verifyAccessToken_def demo_config_simps)
       (simp add: jwt_verify_def demo_simps bad)
qed

section \<open>Tokens that do not match the schema\<close>

lemma shape_issues_failing:
  "(key, check) \<in> set sh \<Longrightarrow> \<not> check (map_of p key) \<Longrightarrow> shape_issues sh p \<noteq> []"
  by (force simp: shape_issues_def issues_def filter_empty_conv)

lemma shape_issues_extra:
  "key \<notin> fst ` set sh \<Longrightarrow> shape_issues sh ((key, v) # p) = shape_issues sh p"
proof -
  assume "key \<notin> fst ` set sh"
  then have "map (\<lambda>(k', check). (k', check (map_of ((key, v) # p) k'))) sh =
             map (\<lambda>(k', check). (k', check (map_of p k'))) sh"
    by (induction sh) auto
  then show ?thesis by (simp only: shape_issues_def)
qed

lemma JWTPayloadSchema_keys: "map fst (JWTPayloadSchema X) = JWTPayload_keys"
  by (simp add: JWTPayloadSchema_def JWTPayload_keys_def)

lemma RefreshTokenPayloadSchema_keys: "map fst (RefreshTokenPayloadSchema X) = RefreshTokenPayload_keys"
  by (simp add: RefreshTokenPayloadSchema_def RefreshTokenPayload_keys_def)

lemma JWTPayloadSchema_None: "(key, check) \<in> set (JWTPayloadSchema X) \<Longrightarrow> \<not> check None"
  by (auto simp: JWTPayloadSchema_def z_string_def z_string_uuid_def z_string_email_def z_role_def
      z_number_def)

lemma RefreshTokenPayloadSchema_None:
  "(key, check) \<in> set (RefreshTokenPayloadSchema X) \<Longrightarrow> \<not> check None"
  by (auto simp: RefreshTokenPayloadSchema_def z_string_uuid_def z_number_def)

lemma JWTPayloadSchema_missing:
  assumes "key \<in> set JWTPayload_keys"
  shows "\<exists>check. (key, check) \<in> set (JWTPayloadSchema X) \<and> \<not> check None"
proof -
  have "key \<in> fst ` set (JWTPayloadSchema X)"
    using assms JWTPayloadSchema_keys [of X] by (metis set_map)
  then obtain check where "(key, check) \<in> set (JWTPayloadSchema X)" by force
  then show ?thesis using JWTPayloadSchema_None by blast
qed

lemma RefreshTokenPayloadSchema_missing:
  assumes "key \<in> set RefreshTokenPayload_keys"
  shows "\<exists>check. (key, check) \<in> set (RefreshTokenPayloadSchema X) \<and> \<not> check None"
proof -
  have "key \<in> fst ` set (RefreshTokenPayloadSchema X)"
    using assms RefreshTokenPayloadSchema_keys [of X] by (metis set_map)
  then obtain check where "(key, check) \<in> set (RefreshTokenPayloadSchema X)" by force
  then show ?thesis using RefreshTokenPayloadSchema_None by blast
qed

lemma parse_access_failing:
  "(key, check) \<in> set (JWTPayloadSchema X) \<Longrightarrow> \<not> check (map_of p key) \<Longrightarrow>
   \<exists>paths. JWTPayloadSchema_parse X p = Inl (ZodError paths)"
  using shape_issues_failing [of key check "JWTPayloadSchema X" p]
  by (simp add: JWTPayloadSchema_parse_def Let_def)

lemma parse_refresh_failing:
  "(key, check) \<in> set (RefreshTokenPayloadSchema X) \<Longrightarrow> \<not> check (map_of p key) \<Longrightarrow>
   \<exists>paths. RefreshTokenPayloadSchema_parse X p = Inl (ZodError paths)"
  using shape_issues_failing [of key check "RefreshTokenPayloadSchema X" p]
  by (simp add: RefreshTokenPayloadSchema_parse_def Let_def)

lemma parse_access_extra:
  "key \<notin> set JWTPayload_keys \<Longrightarrow>
   JWTPayloadSchema_parse X ((key, v) # p) = JWTPayloadSchema_parse X p"
proof -
  assume k: "key \<notin> set JWTPayload_keys"
  then have "\<forall>k'\<in>set JWTPayload_keys. map_of ((key, v) # p) k' = map_of p k'" by auto
  moreover have "shape_issues (JWTPayloadSchema X) ((key, v) # p) = shape_issues (JWTPayloadSchema X) p"
    using k shape_issues_extra [of key "JWTPayloadSchema X" v p] JWTPayloadSchema_keys [of X]
    by (metis set_map)
  ultimately show ?thesis
    by (simp add: JWTPayload_keys_def JWTPayloadSchema_parse_def Let_def del: map_of.simps)
qed

lemma parse_refresh_extra:
  "key \<notin> set RefreshTokenPayload_keys \<Longrightarrow>
   RefreshTokenPayloadSchema_parse X ((key, v) # p) = RefreshTokenPayloadSchema_parse X p"
proof -
  assume k: "key \<notin> set RefreshTokenPayload_keys"
  then have "\<forall>k'\<in>set RefreshTokenPayload_keys. map_of ((key, v) # p) k' = map_of p k'" by auto
  moreover have "shape_issues (RefreshTokenPayloadSchema X) ((key, v) # p)
      = shape_issues (RefreshTokenPayloadSchema X) p"
    using k shape_issues_extra [of key "RefreshTokenPayloadSchema X" v p]
      RefreshTokenPayloadSchema_keys [of X]
    by (metis set_map)
  ultimately show ?thesis
    by (simp add: RefreshTokenPayload_keys_def RefreshTokenPayloadSchema_parse_def Let_def
        del: map_of.simps)
qed

lemma verifyAccessToken_failing:
  assumes "codec_ok X" "(key, check) \<in> set (JWTPayloadSchema X)" "\<not> check (map_of p key)"
  shows "verifyAccessToken X cfg (jws_encode X (JWS p k)) t = Inl (Error ''Invalid access token'')"
proof -
  obtain paths where "JWTPayloadSchema_parse X p = Inl (ZodError paths)"
    using parse_access_failing [OF assms(2,3)] by blast
  then show ?thesis
    using jwt_verify_encoded_Inr [OF assms(1), of p k "JWT_SECRET cfg" t]
    by (auto simp: verifyAccessToken_def split: sum.splits)
qed

lemma verifyRefreshPayload_failing:
  assumes "codec_ok X" "(key, check) \<in> set (RefreshTokenPayloadSchema X)" "\<not> check (map_of p key)"
  shows "isl (verifyRefreshPayload X cfg (jws_encode X (JWS p k)) t)"
proof -
  obtain paths where "RefreshTokenPayloadSchema_parse X p = Inl (ZodError paths)"
    using parse_refresh_failing [OF assms(2,3)] by blast
  then show ?thesis
    using jwt_verify_encoded_Inr [OF assms(1), of p k "JWT_REFRESH_SECRET cfg" t]
    by (auto simp: verifyRefreshPayload_def split: sum.splits)
qed

lemma refreshToken_unverified:
  "isl (verifyRefreshPayload X cfg tok (now div 1000)) \<Longrightarrow>
   refreshToken X cfg users tok now = (Inl (Error ''Invalid refresh token''), users)"
  by (auto simp: refreshToken_def refreshToken_body_def split: sum.splits)

lemma jwt_verify_extra:
  assumes "codec_ok X" "key \<noteq> ''nbf''" "key \<noteq> ''exp''"
  shows "jwt_verify X (jws_encode X (JWS ((key, v) # p) k)) k' t =
     map_sum (\<lambda>e. e) (\<lambda>q. (key, v) # q) (jwt_verify X (jws_encode X (JWS p k)) k' t)"
  using assms(2,3) by (simp add: jwt_verify_encoded [OF assms(1)] split: option.splits)

lemma verifyAccessToken_extra:
  assumes "codec_ok X" "key \<notin> set JWTPayload_keys" "key \<noteq> ''nbf''"
  shows "verifyAccessToken X cfg (jws_encode X (JWS ((key, v) # p) k)) t =
         verifyAccessToken X cfg (jws_encode X (JWS p k)) t"
proof -
  have "key \<noteq> ''exp''" using assms(2) by (auto simp: JWTPayload_keys_def)
  then show ?thesis
    by (auto simp: verifyAccessToken_def jwt_verify_extra [OF assms(1,3)]
        parse_access_extra [OF assms(2)] split: sum.splits)
qed

lemma verifyRefreshPayload_extra:
  assumes "codec_ok X" "key \<notin> set RefreshTokenPayload_keys" "key \<noteq> ''nbf''"
  shows "verifyRefreshPayload X cfg (jws_encode X (JWS ((key, v) # p) k)) t =
         verifyRefreshPayload X cfg (jws_encode X (JWS p k)) t"
proof -
  have "key \<noteq> ''exp''" using assms(2) by (auto simp: RefreshTokenPayload_keys_def)
  then show ?thesis
    by (auto simp: verifyRefreshPayload_def jwt_verify_extra [OF assms(1,3)]
        parse_refresh_extra [OF assms(2)] split: sum.splits)
qed


text \<open>
  Claim C6, as the code has it, for tokens whose signature is valid. A token whose payload
  lacks a key of the schema, or has under a key of the schema a value that fails the check
  the schema makes of that key (a string where a number is wanted, a role that is none of
  the four, a string that is no UUID), is rejected: by \<^verbatim>\<open>verifyAccessToken\<close> with
  \<^verbatim>\<open>Error('Invalid access token')\<close>, and by \<^verbatim>\<open>refreshToken\<close> with \<^verbatim>\<open>Error('Invalid refresh token')\<close>,
  the store untouched. A key the schema does not know changes nothing, unless it is
  \<^verbatim>\<open>nbf\<close>, which \<^verbatim>\<open>jwt.verify\<close> reads: the token with it is verified as the token without it
  is, so an otherwise valid token with an unknown extra field is accepted and the field
  is dropped from the claims returned.
\<close>

theorem schema_mismatch_rejected_extra_stripped:
  assumes "codec_ok X"
  shows "(key \<in> set JWTPayload_keys \<and> map_of p key = None \<longrightarrow>
            verifyAccessToken X cfg (jws_encode X (JWS p k)) t = Inl (Error ''Invalid access token'')) \<and>
         ((key, check) \<in> set (JWTPayloadSchema X) \<and> \<not> check (map_of p key) \<longrightarrow>
            verifyAccessToken X cfg (jws_encode X (JWS p k)) t = Inl (Error ''Invalid access token'')) \<and>
         (key \<in> set RefreshTokenPayload_keys \<and> map_of p key = None \<longrightarrow>
            isl (verifyRefreshPayload X cfg (jws_encode X (JWS p k)) t) \<and>
            refreshToken X cfg users (jws_encode X (JWS p k)) now
              = (Inl (Error ''Invalid refresh token''), users)) \<and>
         ((key, check) \<in> set (RefreshTokenPayloadSchema X) \<and> \<not> check (map_of p key) \<longrightarrow>
            isl (verifyRefreshPayload X cfg (jws_encode X (JWS p k)) t) \<and>
            refreshToken X cfg users (jws_encode X (JWS p k)) now
              = (Inl (Error ''Invalid refresh token''), users)) \<and>
         (key \<notin> set JWTPayload_keys \<and> key \<noteq> ''nbf'' \<longrightarrow>
            verifyAccessToken X cfg (jws_encode X (JWS ((key, v) # p) k)) t =
            verifyAccessToken X cfg (jws_encode X (JWS p k)) t) \<and>
         (key \<notin> set RefreshTokenPayload_keys \<and> key \<noteq> ''nbf'' \<longrightarrow>
            verifyRefreshPayload X cfg (jws_encode X (JWS ((key, v) # p) k)) t =
            verifyRefreshPayload X cfg (jws_encode X (JWS p k)) t)"
proof -
  have a: "verifyAccessToken X cfg (jws_encode X (JWS p k)) t = Inl (Error ''Invalid access token'')"
    if "(key, check) \<in> set (JWTPayloadSchema X) \<and> \<not> check (map_of p key)"
    using verifyAccessToken_failing [OF assms, of key check p] that by simp
  have am: "verifyAccessToken X cfg (jws_encode X (JWS p k)) t = Inl (Error ''Invalid access token'')"
    if h: "key \<in> set JWTPayload_keys \<and> map_of p key = None"
  proof -
    obtain c where "(key, c) \<in> set (JWTPayloadSchema X)" "\<not> c None"
      using JWTPayloadSchema_missing [of key X] h by blast
    then show ?thesis using verifyAccessToken_failing [OF assms, of key c p] h by simp
  qed
  have r: "isl (verifyRefreshPayload X cfg (jws_encode X (JWS p k)) s)"
    if "(key, check) \<in> set (RefreshTokenPayloadSchema X) \<and> \<not> check (map_of p key)" for s
    using verifyRefreshPayload_failing [OF assms, of key check p] that by simp
  have rm: "isl (verifyRefreshPayload X cfg (jws_encode X (JWS p k)) s)"
    if h: "key \<in> set RefreshTokenPayload_keys \<and> map_of p key = None" for s
  proof -
    obtain c where "(key, c) \<in> set (RefreshTokenPayloadSchema X)" "\<not> c None"
      using RefreshTokenPayloadSchema_missing [of key X] h by blast
    then show ?thesis using verifyRefreshPayload_failing [OF assms, of key c p] h by simp
  qed
  note rt = refreshToken_unverified [of X cfg "jws_encode X (JWS p k)" now users]
  have xa: "verifyAccessToken X cfg (jws_encode X (JWS ((key, v) # p) k)) t =
            verifyAccessToken X cfg (jws_encode X (JWS p k)) t"
    if "key \<notin> set JWTPayload_keys \<and> key \<noteq> ''nbf''"
    using verifyAccessToken_extra [OF assms, of key] that by simp
  have xr: "verifyRefreshPayload X cfg (jws_encode X (JWS ((key, v) # p) k)) t =
            verifyRefreshPayload X cfg (jws_encode X (JWS p k)) t"
    if "key \<notin> set RefreshTokenPayload_keys \<and> key \<noteq> ''nbf''"
    using verifyRefreshPayload_extra [OF assms, of key] that by simp
  show ?thesis
    using a am r [of t] rm [of t] rt [OF r] rt [OF rm] xa xr
    by (intro conjI impI)
qed


text \<open>The theorem at a token without \<^verbatim>\<open>email\<close>, at a token whose role is \<^verbatim>\<open>admin\<close>, at a
  refresh token whose \<^verbatim>\<open>tokenVersion\<close> is a string, and at John Doe's token with a key
  \<^verbatim>\<open>admin\<close>.\<close>

theorem schema_mismatch_rejected_extra_stripped_witness:
  "verifyAccessToken demo demo_config
     (jws_encode demo (JWS [(''userId'', JString ''123e4567-e89b-12d3-a456-426614174000''),
                           (''sessionId'', JString ''0b8f6a52-6f0c-4c8e-9d2a-3f1e5a7b9c01''),
                           (''iat'', JNumber 1700000000), (''exp'', JNumber 1700000900)]
                          ''test-jwt-secret-key''))
     1700000000 = Inl (Error ''Invalid access token'') \<and>
   verifyAccessToken demo demo_config
     (jws_encode demo (JWS [(''userId'', JString ''123e4567-e89b-12d3-a456-426614174000''),
                           (''email'', JString ''john.doe@example.com''),
                           (''role'', JString ''admin''),
                           (''timezone'', JString ''America/New_York''),
                           (''sessionId'', JString ''0b8f6a52-6f0c-4c8e-9d2a-3f1e5a7b9c01''),
                           (''iat'', JNumber 1700000000), (''exp'', JNumber 1700000900)]
                          ''test-jwt-secret-key''))
     1700000000 = Inl (Error ''Invalid access token'') \<and>
   refreshToken demo demo_config [example_user]
     (jws_encode demo (JWS [(''userId'', JString ''123e4567-e89b-12d3-a456-426614174000''),
                           (''sessionId'', JString ''0b8f6a52-6f0c-4c8e-9d2a-3f1e5a7b9c01''),
                           (''tokenVersion'', JString ''1''),
                           (''iat'', JNumber 1700000000), (''exp'', JNumber 1700604800)]
                          ''test-refresh-secret-key''))
     1700000000000 = (Inl (Error ''Invalid refresh token''), [example_user]) \<and>
   verifyAccessToken demo demo_config
     (jws_encode demo (JWS ((''admin'', JBool True) # accessTokenPayload example_claims @
                            [(''iat'', JNumber 1700000000), (''exp'', JNumber 1700000900)])
                          ''test-jwt-secret-key''))
     1700000000 =
   verifyAccessToken demo demo_config
     (jws_encode demo (JWS (accessTokenPayload example_claims @
                            [(''iat'', JNumber 1700000000), (''exp'', JNumber 1700000900)])
                          ''test-jwt-secret-key''))
     1700000000"
proof -
  let ?p1 = "[(''userId'', JString ''123e4567-e89b-12d3-a456-426614174000''),
              (''sessionId'', JString ''0b8f6a52-6f0c-4c8e-9d2a-3f1e5a7b9c01''),
              (''iat'', JNumber 1700000000), (''exp'', JNumber 1700000900)]"
  let ?p2 = "[(''userId'', JString ''123e4567-e89b-12d3-a456-426614174000''),
              (''email'', JString ''john.doe@example.com''),
              (''role'', JString ''admin''),
              (''timezone'', JString ''America/New_York''),
              (''sessionId'', JString ''0b8f6a52-6f0c-4c8e-9d2a-3f1e5a7b9c01''),
              (''iat'', JNumber 1700000000), (''exp'', JNumber 1700000900)]"
  let ?p3 = "[(''userId'', JString ''123e4567-e89b-12d3-a456-426614174000''),
              (''sessionId'', JString ''0b8f6a52-6f0c-4c8e-9d2a-3f1e5a7b9c01''),
              (''tokenVersion'', JString ''1''),
              (''iat'', JNumber 1700000000), (''exp'', JNumber 1700604800)]"
  have missing: "''email'' \<in> set JWTPayload_keys \<and> map_of ?p1 ''email'' = None"
    by (simp add: JWTPayload_keys_def)
  have role: "(''role'', z_role) \<in> set (JWTPayloadSchema demo) \<and> \<not> z_role (map_of ?p2 ''role'')"
    by (simp add: JWTPayloadSchema_def z_role_def nativeEnum_role_def)
  have version: "(''tokenVersion'', z_number) \<in> set (RefreshTokenPayloadSchema demo) \<and>
      \<not> z_number (map_of ?p3 ''tokenVersion'')"
    by (simp add: RefreshTokenPayloadSchema_def z_number_def)
  have extra: "''admin'' \<notin> set JWTPayload_keys \<and> ''admin'' \<noteq> ''nbf''"
    by (simp add: JWTPayload_keys_def)
  have c1: "verifyAccessToken demo demo_config (jws_encode demo (JWS ?p1 ''test-jwt-secret-key''))
      1700000000 = Inl (Error ''Invalid access token'')"
    using schema_mismatch_rejected_extra_stripped [OF demo_codec_ok,
        where key = "''email''" and p = ?p1 and cfg = demo_config
          and k = "''test-jwt-secret-key''" and t = 1700000000 and check = z_role
          and users = "[]" and now = 0 and v = JNull] missing
    by blast
  have c2: "verifyAccessToken demo demo_config (jws_encode demo (JWS ?p2 ''test-jwt-secret-key''))
      1700000000 = Inl (Error ''Invalid access token'')"
    using schema_mismatch_rejected_extra_stripped [OF demo_codec_ok,
        where key = "''role''" and check = z_role and p = ?p2 and cfg = demo_config
          and k = "''test-jwt-secret-key''" and t = 1700000000
          and users = "[]" and now = 0 and v = JNull] role
    by blast
  have c3: "refreshToken demo demo_config [example_user]
      (jws_encode demo (JWS ?p3 ''test-refresh-secret-key'')) 1700000000000
      = (Inl (Error ''Invalid refresh token''), [example_user])"
    using schema_mismatch_rejected_extra_stripped [OF demo_codec_ok,
        where key = "''tokenVersion''" and check = z_number and p = ?p3 and cfg = demo_config
          and k = "''test-refresh-secret-key''" and now = 1700000000000 and t = 1700000000
          and users = "[example_user]" and v = JNull] version
    by blast
  have c4: "verifyAccessToken demo demo_config
     (jws_encode demo (JWS ((''admin'', JBool True) # accessTokenPayload example_claims @
                            [(''iat'', JNumber 1700000000), (''exp'', JNumber 1700000900)])
                          ''test-jwt-secret-key''))
     1700000000 =
   verifyAccessToken demo demo_config
     (jws_encode demo (JWS (accessTokenPayload example_claims @
                            [(''iat'', JNumber 1700000000), (''exp'', JNumber 1700000900)])
                          ''test-jwt-secret-key''))
     1700000000"
    using schema_mismatch_rejected_extra_stripped [OF demo_codec_ok,
        where key = "''admin''" and cfg = demo_config and v = "JBool True"
          and p = "accessTokenPayload example_claims @
                   [(''iat'', JNumber 1700000000), (''exp'', JNumber 1700000900)]"
          and k = "''test-jwt-secret-key''" and t = 1700000000 and check = z_role
          and users = "[]" and now = 0] extra
    by blast
  show ?thesis
    using c1 c2 c3 c4 by (intro conjI)
qed


text \<open>
  Claim C6 as stated, for unknown extra fields: John Doe's access token with the extra
  claim \<^verbatim>\<open>admin: true\<close>, well signed and not expired, is accepted.
\<close>

theorem extra_field_accepted_counterexample:
  "verifyAccessToken demo demo_config
     (jws_encode demo (JWS ((''admin'', JBool True) # accessTokenPayload example_claims @
                            [(''iat'', JNumber 1700000000), (''exp'', JNumber 1700000900)])
                          ''test-jwt-secret-key''))
     1700000000 =
     Inr \<lparr>userId = ''123e4567-e89b-12d3-a456-426614174000'', email = ''john.doe@example.com'',
          role = Developer, timezone = ''America/New_York'',
          sessionId = ''0b8f6a52-6f0c-4c8e-9d2a-3f1e5a7b9c01'',
          iat = 1700000000, exp_at = 1700000900\<rparr>"
proof -
  have extra: "''admin'' \<notin> set JWTPayload_keys" "''admin'' \<noteq> ''nbf''"
    by (simp_all add: JWTPayload_keys_def)
  show ?thesis
    by (simp only: verifyAccessToken_extra [OF demo_codec_ok extra])
       (simp add: verifyAccessToken_signed [OF demo_codec_ok] demo_config_simps demo_simps(4,5)
          example_claims_def example_formats)
qed

section \<open>The two signing secrets\<close>

lemma constructor_secrets:
  "AuthService_constructor X e = Inr cfg \<Longrightarrow>
     truthy (env_JWT_SECRET e) = Some (JWT_SECRET cfg) \<and>
     JWT_REFRESH_SECRET cfg =
       (case truthy (env_JWT_REFRESH_SECRET e) of Some r \<Rightarrow> r | None \<Rightarrow> JWT_SECRET cfg)"
  by (auto simp: AuthService_constructor_def or_else_def split: option.splits)


text \<open>
  Claim C7, as the code has it. The constructor takes the access secret from \<^verbatim>\<open>JWT_SECRET\<close>
  and the refresh secret from \<^verbatim>\<open>JWT_REFRESH_SECRET\<close>, or from \<^verbatim>\<open>JWT_SECRET\<close> when that is unset
  or empty. \<^verbatim>\<open>generateTokens\<close> signs the access token with the first and the refresh token
  with the second. When the two differ, a token signed under one fails \<^verbatim>\<open>jwt.verify\<close> under
  the other with an invalid signature, whatever its payload, and so is rejected by
  \<^verbatim>\<open>verifyAccessToken\<close> and by \<^verbatim>\<open>refreshToken\<close>.
\<close>

theorem secrets_independent_when_configured:
  assumes "AuthService_constructor X e = Inr cfg"
  shows "truthy (env_JWT_SECRET e) = Some (JWT_SECRET cfg) \<and>
     JWT_REFRESH_SECRET cfg =
       (case truthy (env_JWT_REFRESH_SECRET e) of Some r \<Rightarrow> r | None \<Rightarrow> JWT_SECRET cfg) \<and>
     (codec_ok X \<and> ms X (JWT_EXPIRES_IN cfg) = Some a
        \<and> ms X (if longLived then ''30d'' else JWT_REFRESH_EXPIRES_IN cfg) = Some b \<longrightarrow>
        \<not> isl (generateTokens X cfg c longLived now) \<and>
        map_option jws_key (jws_decode X (accessToken (projr (generateTokens X cfg c longLived now))))
          = Some (JWT_SECRET cfg) \<and>
        map_option jws_key (jws_decode X (refresh_token (projr (generateTokens X cfg c longLived now))))
          = Some (JWT_REFRESH_SECRET cfg)) \<and>
     (codec_ok X \<and> JWT_SECRET cfg \<noteq> JWT_REFRESH_SECRET cfg \<longrightarrow>
        jwt_verify X (jws_encode X (JWS p (JWT_SECRET cfg))) (JWT_REFRESH_SECRET cfg) t
          = Inl (JsonWebTokenError ''invalid signature'') \<and>
        jwt_verify X (jws_encode X (JWS p (JWT_REFRESH_SECRET cfg))) (JWT_SECRET cfg) t
          = Inl (JsonWebTokenError ''invalid signature'') \<and>
        verifyAccessToken X cfg (jws_encode X (JWS p (JWT_REFRESH_SECRET cfg))) t
          = Inl (Error ''Invalid access token'') \<and>
        refreshToken X cfg users (jws_encode X (JWS p (JWT_SECRET cfg))) now
          = (Inl (Error ''Invalid refresh token''), users))"
proof -
  have keys: "\<not> isl (generateTokens X cfg c longLived now) \<and>
        map_option jws_key (jws_decode X (accessToken (projr (generateTokens X cfg c longLived now))))
          = Some (JWT_SECRET cfg) \<and>
        map_option jws_key (jws_decode X (refresh_token (projr (generateTokens X cfg c longLived now))))
          = Some (JWT_REFRESH_SECRET cfg)"
    if "codec_ok X" "ms X (JWT_EXPIRES_IN cfg) = Some a"
       "ms X (if longLived then ''30d'' else JWT_REFRESH_EXPIRES_IN cfg) = Some b"
    using that by (simp add: generateTokens_ok [OF that] decode_encode)
  have cross: "jwt_verify X (jws_encode X (JWS p (JWT_SECRET cfg))) (JWT_REFRESH_SECRET cfg) t
          = Inl (JsonWebTokenError ''invalid signature'') \<and>
        jwt_verify X (jws_encode X (JWS p (JWT_REFRESH_SECRET cfg))) (JWT_SECRET cfg) t
          = Inl (JsonWebTokenError ''invalid signature'') \<and>
        verifyAccessToken X cfg (jws_encode X (JWS p (JWT_REFRESH_SECRET cfg))) t
          = Inl (Error ''Invalid access token'') \<and>
        refreshToken X cfg users (jws_encode X (JWS p (JWT_SECRET cfg))) now
          = (Inl (Error ''Invalid refresh token''), users)"
    if "codec_ok X" "JWT_SECRET cfg \<noteq> JWT_REFRESH_SECRET cfg"
    using that
    by (auto simp: jwt_verify_encoded verifyAccessToken_def refreshToken_def refreshToken_body_def
        verifyRefreshPayload_def encode_not_empty)
  show ?thesis
    using constructor_secrets [OF assms] keys cross by blast
qed

lemma test_env_config: "AuthService_constructor demo test_env = Inr demo_config"
  by (simp add: AuthService_constructor_def test_env_def demo_config_def truthy_def or_else_def demo_def)


text \<open>The theorem at the environment of the integration tests.\<close>

theorem secrets_independent_when_configured_witness:
  "AuthService_constructor demo test_env = Inr demo_config \<and>
   JWT_REFRESH_SECRET demo_config = ''test-refresh-secret-key'' \<and>
   jwt_verify demo
     (jws_encode demo (JWS (refreshTokenPayload example_claims @
         [(''iat'', JNumber 1700000000), (''exp'', JNumber 1700604800)]) (JWT_SECRET demo_config)))
     (JWT_REFRESH_SECRET demo_config) 1700000000 = Inl (JsonWebTokenError ''invalid signature'') \<and>
   refreshToken demo demo_config [example_user]
     (jws_encode demo (JWS (refreshTokenPayload example_claims @
         [(''iat'', JNumber 1700000000), (''exp'', JNumber 1700604800)]) (JWT_SECRET demo_config)))
     1700000000000 = (Inl (Error ''Invalid refresh token''), [example_user])"
proof -
  have differ: "codec_ok demo \<and> JWT_SECRET demo_config \<noteq> JWT_REFRESH_SECRET demo_config"
    by (simp add: demo_codec_ok demo_config_simps)
  have "jwt_verify demo
     (jws_encode demo (JWS (refreshTokenPayload example_claims @
         [(''iat'', JNumber 1700000000), (''exp'', JNumber 1700604800)]) (JWT_SECRET demo_config)))
     (JWT_REFRESH_SECRET demo_config) 1700000000 = Inl (JsonWebTokenError ''invalid signature'') \<and>
   refreshToken demo demo_config [example_user]
     (jws_encode demo (JWS (refreshTokenPayload example_claims @
         [(''iat'', JNumber 1700000000), (''exp'', JNumber 1700604800)]) (JWT_SECRET demo_config)))
     1700000000000 = (Inl (Error ''Invalid refresh token''), [example_user])"
    using secrets_independent_when_configured [OF test_env_config,
        where p = "refreshTokenPayload example_claims @
         [(''iat'', JNumber 1700000000), (''exp'', JNumber 1700604800)]" and t = 1700000000
        and users = "[example_user]" and now = 1700000000000] differ
    by blast
  then show ?thesis
    using test_env_config by (simp add: demo_config_simps)
qed


text \<open>
  Claim C7 as stated, for every configuration: with \<^verbatim>\<open>JWT_REFRESH_SECRET\<close> unset the two
  secrets are one, and a refresh payload signed with the access secret verifies as a
  refresh token.
\<close>

theorem shared_secret_counterexample:
  "JWT_REFRESH_SECRET (projr (AuthService_constructor demo default_env))
     = JWT_SECRET (projr (AuthService_constructor demo default_env)) \<and>
   verifyRefreshPayload demo (projr (AuthService_constructor demo default_env))
     (jws_encode demo (JWS (refreshTokenPayload example_claims @
         [(''iat'', JNumber 1700000000), (''exp'', JNumber 1700604800)])
         (JWT_SECRET (projr (AuthService_constructor demo default_env)))))
     1700000000 =
     Inr \<lparr>rt_userId = ''123e4567-e89b-12d3-a456-426614174000'',
          rt_sessionId = ''0b8f6a52-6f0c-4c8e-9d2a-3f1e5a7b9c01'', tokenVersion = 1,
          rt_iat = 1700000000, rt_exp = 1700604800\<rparr>"
proof -
  have c: "AuthService_constructor demo default_env =
      Inr \<lparr>JWT_SECRET = ''test-jwt-secret-key'', JWT_REFRESH_SECRET = ''test-jwt-secret-key'',
           JWT_EXPIRES_IN = ''15m'', JWT_REFRESH_EXPIRES_IN = ''7d'', BCRYPT_ROUNDS = 12\<rparr>"
    by (simp add: AuthService_constructor_def default_env_def truthy_def or_else_def demo_def)
  show ?thesis
    by (simp add: c verifyRefreshPayload_signed [OF demo_codec_ok] demo_simps(4,5) example_claims_def
        example_formats)
qed

section \<open>The Authorization header\<close>

lemma missing_not_invalid:
  "missing_token now \<noteq> invalid_token now" "missing_token now \<noteq> Next u"
  "invalid_token now \<noteq> missing_token now" "Next u \<noteq> missing_token now"
  by (simp_all add: missing_token_def invalid_token_def)


text \<open>
  Claim C10, as the code has it. A header that is not empty and does not start with
  \<^verbatim>\<open>'Bearer '\<close> is verified whole as the access token: the request goes on with the user of
  its claims when it verifies, and is answered 401 \<^verbatim>\<open>INVALID_TOKEN\<close> when it does not. The
  answer is 401 \<^verbatim>\<open>MISSING_TOKEN\<close> exactly when the header is absent, is the empty string, or
  is \<^verbatim>\<open>'Bearer '\<close> with nothing after it.
\<close>

theorem authenticate_header:
  "(h \<noteq> [] \<and> take 7 h \<noteq> ''Bearer '' \<longrightarrow>
      authenticate X cfg (Some h) now =
        (case verifyAccessToken X cfg h (now div 1000) of
           Inr payload \<Rightarrow>
             Next \<lparr>ru_id = userId payload, ru_email = email payload, ru_role = role payload,
                   ru_timezone = timezone payload, ru_sessionId = sessionId payload\<rparr>
         | Inl e \<Rightarrow> invalid_token now)) \<and>
   (authenticate X cfg authorization now = missing_token now \<longleftrightarrow>
      authorization = None \<or> authorization = Some [] \<or> authorization = Some ''Bearer '')"
proof -
  have a: "authenticate X cfg (Some h) now =
        (case verifyAccessToken X cfg h (now div 1000) of
           Inr payload \<Rightarrow>
             Next \<lparr>ru_id = userId payload, ru_email = email payload, ru_role = role payload,
                   ru_timezone = timezone payload, ru_sessionId = sessionId payload\<rparr>
         | Inl e \<Rightarrow> invalid_token now)"
    if "h \<noteq> []" "take 7 h \<noteq> ''Bearer ''"
    using that by (simp add: authenticate_def extractToken_def)
  have b: "authenticate X cfg authorization now = missing_token now \<longleftrightarrow>
      authorization = None \<or> authorization = Some [] \<or> authorization = Some ''Bearer ''"
  proof (cases authorization)
    case None
    then show ?thesis by (simp add: authenticate_def extractToken_def)
  next
    case (Some hd)
    have drop_empty: "drop 7 hd = [] \<longleftrightarrow> hd = ''Bearer ''" if "take 7 hd = ''Bearer ''"
      using that append_take_drop_id [of 7 hd] by (metis append_Nil2 take_all_iff drop_eq_Nil)
    show ?thesis
      using Some drop_empty
      by (auto simp: authenticate_def extractToken_def missing_not_invalid split: sum.splits)
  qed
  show ?thesis using a b by blast
qed

lemma demo_encode_no_bearer: "take 7 (demo_encode j) \<noteq> ''Bearer ''"
  by (simp add: demo_encode_def)


text \<open>The theorem at John Doe's access token sent without the prefix, and at a string that
  is no token.\<close>

theorem authenticate_header_witness:
  "authenticate demo demo_config
     (Some (demo_token (accessTokenPayload example_claims) 1700000000 1700000900 ''test-jwt-secret-key''))
     1700000000000 =
     Next \<lparr>ru_id = ''123e4567-e89b-12d3-a456-426614174000'', ru_email = ''john.doe@example.com'',
           ru_role = Developer, ru_timezone = ''America/New_York'',
           ru_sessionId = ''0b8f6a52-6f0c-4c8e-9d2a-3f1e5a7b9c01''\<rparr> \<and>
   authenticate demo demo_config (Some ''invalid-token'') 1700000000000 = invalid_token 1700000000000"
proof -
  let ?tok = "demo_token (accessTokenPayload example_claims) 1700000000 1700000900 ''test-jwt-secret-key''"
  have h: "?tok \<noteq> [] \<and> take 7 ?tok \<noteq> ''Bearer ''"
    by (simp add: demo_token_def demo_encode_no_bearer demo_encode_not_empty)
  have v: "verifyAccessToken demo demo_config ?tok (1700000000000 div 1000) =
      Inr \<lparr>userId = ''123e4567-e89b-12d3-a456-426614174000'', email = ''john.doe@example.com'',
          role = Developer, timezone = ''America/New_York'',
          sessionId = ''0b8f6a52-6f0c-4c8e-9d2a-3f1e5a7b9c01'',
          iat = 1700000000, exp_at = 1700000900\<rparr>"
    by (simp add: demo_token_encode verifyAccessToken_signed [OF demo_codec_ok] demo_config_simps
        demo_simps(4,5) example_claims_def example_formats)
  have g: "''invalid-token'' \<noteq> [] \<and> take 7 ''invalid-token'' \<noteq> ''Bearer ''" by simp
  have bad: "verifyAccessToken demo demo_config ''invalid-token'' (1700000000000 div 1000)
      = Inl (Error ''Invalid access token'')"
    by (simp add: verifyAccessToken_def jwt_verify_def demo_simps demo_decode_def)
  show ?thesis
    using authenticate_header [of ?tok demo demo_config 1700000000000] h v
      authenticate_header [of "''invalid-token''" demo demo_config 1700000000000] g bad
    by simp
qed


text \<open>
  Claim C10 as stated (\<^verbatim>\<open>MISSING_TOKEN\<close> only when the header is absent): a header that is
  present and empty, and the header \<^verbatim>\<open>'Bearer '\<close>, are answered \<^verbatim>\<open>MISSING_TOKEN\<close> too.
\<close>

theorem missing_token_counterexample:
  "authenticate demo demo_config (Some []) 1700000000000 = missing_token 1700000000000 \<and>
   authenticate demo demo_config (Some ''Bearer '') 1700000000000 = missing_token 1700000000000"
  by (simp add: authenticate_def extractToken_def)

section \<open>Refresh rotation\<close>

lemma parse_refresh_formats:
  "RefreshTokenPayloadSchema_parse X q = Inr p \<Longrightarrow>
     is_uuid X (rt_userId p) \<and> is_uuid X (rt_sessionId p) \<and> rt_iat p = the_number (map_of q ''iat'')"
  by (auto simp: RefreshTokenPayloadSchema_parse_def RefreshTokenPayloadSchema_def shape_issues_def
      issues_def Let_def z_string_uuid_def
      split: if_splits option.splits json.splits)

lemma verifyRefreshPayload_Inr:
  "verifyRefreshPayload X cfg tok t = Inr p \<Longrightarrow>
     tok \<noteq> [] \<and> (\<exists>j. jws_decode X tok = Some j \<and> RefreshTokenPayloadSchema_parse X (jws_payload j) = Inr p)"
  by (auto simp: verifyRefreshPayload_def jwt_verify_def
      split: sum.splits if_splits option.splits)

lemma refresh_step:
  assumes codec: "codec_ok X"
    and a: "ms X (JWT_EXPIRES_IN cfg) = Some a"
    and b: "ms X (JWT_REFRESH_EXPIRES_IN cfg) = Some b"
    and valid: "verifyRefreshPayload X cfg R1 (now div 1000) = Inr p1"
    and user: "findById X users (rt_userId p1) = Inr (Some u)"
    and active: "is_active u"
  shows "refreshToken X cfg users R1 now =
     (Inr \<lparr>accessToken = jws_encode X (JWS (accessTokenPayload (claims_of_user u (rt_sessionId p1)) @
                 [(''iat'', JNumber (now div 1000)), (''exp'', JNumber (now div 1000 + a div 1000))])
                 (JWT_SECRET cfg)),
          refresh_token = jws_encode X (JWS (refreshTokenPayload (claims_of_user u (rt_sessionId p1)) @
                 [(''iat'', JNumber (now div 1000)), (''exp'', JNumber (now div 1000 + b div 1000))])
                 (JWT_REFRESH_SECRET cfg)),
          expiresIn = a div 1000,
          tokenType = ''Bearer''\<rparr>,
      updateLastSeen users (u_id u) now)"
proof -
  have ne: "R1 \<noteq> []" using verifyRefreshPayload_Inr [OF valid] by simp
  have b': "ms X (if False then ''30d'' else JWT_REFRESH_EXPIRES_IN cfg) = Some b" using b by simp
  show ?thesis
    using ne valid user active
    by (simp add: refreshToken_def refreshToken_body_def generateTokens_ok [OF codec a b'])
qed




lemma login_example:
  "login demo demo_config [example_user] example_login ''0b8f6a52-6f0c-4c8e-9d2a-3f1e5a7b9c01'' 1700000000000
   = (Inr (mapToAuthenticatedUser example_user,
        \<lparr>accessToken = demo_token (accessTokenPayload example_claims) 1700000000 1700000900 ''test-jwt-secret-key'',
         refresh_token = demo_token (refreshTokenPayload example_claims) 1700000000 1700604800 ''test-refresh-secret-key'',
         expiresIn = 900, tokenType = ''Bearer''\<rparr>),
      [example_user\<lparr>last_seen := Some 1700000000000\<rparr>])"
proof -
  have parse: "LoginRequestSchema_parse demo example_login =
      Inr \<lparr>ld_email = ''John.Doe@Example.com'', ld_password = ''SecurePassword123!'',
           ld_timezone = None, ld_rememberMe = False\<rparr>"
    by (simp add: LoginRequestSchema_parse_def example_login_def issues_def demo_simps example_formats)
  have find: "findByEmail demo [example_user] ''John.Doe@Example.com'' = Inr (Some example_user)"
    by (simp add: findByEmail_def example_formats example_user_valid)
       (simp add: example_user_def)
  have cl: "claims_of_user example_user ''0b8f6a52-6f0c-4c8e-9d2a-3f1e5a7b9c01'' = example_claims"
    by (simp add: claims_of_user_def example_user_def example_claims_def)
  have gen: "generateTokens demo demo_config example_claims False 1700000000000 =
      Inr \<lparr>accessToken = demo_token (accessTokenPayload example_claims) 1700000000 1700000900 ''test-jwt-secret-key'',
         refresh_token = demo_token (refreshTokenPayload example_claims) 1700000000 1700604800 ''test-refresh-secret-key'',
         expiresIn = 900, tokenType = ''Bearer''\<rparr>"
    by (simp add: generateTokens_ok [OF demo_codec_ok demo_ttl] demo_token_def demo_simps demo_config_simps)
  have pw: "bcrypt_compare demo ''SecurePassword123!'' (password_hash example_user)"
    by (simp add: demo_simps example_user_def)
  have act: "is_active example_user" "u_id example_user = ''123e4567-e89b-12d3-a456-426614174000''"
    by (simp_all add: example_user_def)
  show ?thesis
    by (simp add: login_def parse find pw act login_timezone_def truthy_def cl gen updateLastSeen_def)
qed

lemma example_findById:
  "findById demo [example_user] ''123e4567-e89b-12d3-a456-426614174000'' = Inr (Some example_user)"
  by (simp add: findById_def example_user_valid)
     (simp add: example_user_def)

lemma example_refresh_valid:
  "t < 1700604800 \<Longrightarrow>
   verifyRefreshPayload demo demo_config
     (demo_token (refreshTokenPayload example_claims) 1700000000 1700604800 ''test-refresh-secret-key'') t
   = Inr \<lparr>rt_userId = ''123e4567-e89b-12d3-a456-426614174000'',
          rt_sessionId = ''0b8f6a52-6f0c-4c8e-9d2a-3f1e5a7b9c01'', tokenVersion = 1,
          rt_iat = 1700000000, rt_exp = 1700604800\<rparr>"
  by (simp add: demo_token_encode verifyRefreshPayload_signed [OF demo_codec_ok] demo_config_simps
      demo_simps(4,5) example_claims_def example_formats)





section \<open>Round trip of issued tokens\<close>

lemma generateTokens_Inr:
  assumes "generateTokens X cfg c longLived now = Inr tokens"
  shows "\<exists>a b. ms X (JWT_EXPIRES_IN cfg) = Some a \<and>
               ms X (if longLived then ''30d'' else JWT_REFRESH_EXPIRES_IN cfg) = Some b"
  using assms
  by (auto simp: generateTokens_def jwt_sign_def Let_def split: option.splits sum.splits)

lemma generateTokens_round_trip:
  assumes codec: "codec_ok X"
    and issued: "generateTokens X cfg c longLived now = Inr tokens"
    and formats: "is_uuid X (cl_userId c)" "is_email X (cl_email c)" "is_uuid X (cl_sessionId c)"
  shows "(\<forall>t. t < now div 1000 + expiresIn tokens \<longrightarrow>
        verifyAccessToken X cfg (accessToken tokens) t =
          Inr \<lparr>userId = cl_userId c, email = cl_email c, role = cl_role c,
               timezone = cl_timezone c, sessionId = cl_sessionId c,
               iat = now div 1000, exp_at = now div 1000 + expiresIn tokens\<rparr>) \<and>
     (\<exists>b. ms X (if longLived then ''30d'' else JWT_REFRESH_EXPIRES_IN cfg) = Some b \<and>
        (\<forall>t. t < now div 1000 + b div 1000 \<longrightarrow>
           verifyRefreshPayload X cfg (refresh_token tokens) t =
             Inr \<lparr>rt_userId = cl_userId c, rt_sessionId = cl_sessionId c, tokenVersion = 1,
                  rt_iat = now div 1000, rt_exp = now div 1000 + b div 1000\<rparr>))"
proof -
  obtain a b where a: "ms X (JWT_EXPIRES_IN cfg) = Some a"
    and b: "ms X (if longLived then ''30d'' else JWT_REFRESH_EXPIRES_IN cfg) = Some b"
    using generateTokens_Inr [OF issued] by blast
  have tokens: "tokens =
     \<lparr>accessToken = jws_encode X (JWS (accessTokenPayload c @
                 [(''iat'', JNumber (now div 1000)), (''exp'', JNumber (now div 1000 + a div 1000))])
                 (JWT_SECRET cfg)),
          refresh_token = jws_encode X (JWS (refreshTokenPayload c @
                 [(''iat'', JNumber (now div 1000)), (''exp'', JNumber (now div 1000 + b div 1000))])
                 (JWT_REFRESH_SECRET cfg)),
          expiresIn = a div 1000,
          tokenType = ''Bearer''\<rparr>"
    using issued generateTokens_ok [OF codec a b, of c now] by simp
  have access: "\<forall>t. t < now div 1000 + expiresIn tokens \<longrightarrow>
        verifyAccessToken X cfg (accessToken tokens) t =
          Inr \<lparr>userId = cl_userId c, email = cl_email c, role = cl_role c,
               timezone = cl_timezone c, sessionId = cl_sessionId c,
               iat = now div 1000, exp_at = now div 1000 + expiresIn tokens\<rparr>"
    using formats by (simp add: tokens verifyAccessToken_signed [OF codec])
  have refresh: "\<forall>t. t < now div 1000 + b div 1000 \<longrightarrow>
           verifyRefreshPayload X cfg (refresh_token tokens) t =
             Inr \<lparr>rt_userId = cl_userId c, rt_sessionId = cl_sessionId c, tokenVersion = 1,
                  rt_iat = now div 1000, rt_exp = now div 1000 + b div 1000\<rparr>"
    using formats by (simp add: tokens verifyRefreshPayload_signed [OF codec])
  show ?thesis using access refresh b by blast
qed

lemma login_timezone_Inr:
  "login_timezone X users user tz now = (Inr user1, users1) \<Longrightarrow>
     u_id user1 = u_id user \<and> u_email user1 = u_email user"
  by (auto simp: login_timezone_def split: option.splits if_splits prod.splits sum.splits)

lemma login_Inr:
  assumes "login X cfg users body sid now = (Inr (au, tokens), users')"
  shows "\<exists>user. generateTokens X cfg (claims_of_user user sid) (lr_rememberMe body = Some True) now
                   = Inr tokens \<and>
                au = mapToAuthenticatedUser user \<and> is_uuid X (u_id user) \<and> is_email X (u_email user)"
proof -
  obtain d where d: "LoginRequestSchema_parse X body = Inr d"
    using assms by (cases "LoginRequestSchema_parse X body") (auto simp: login_def)
  have flag: "ld_rememberMe d = (lr_rememberMe body = Some True)"
    using d by (auto simp: LoginRequestSchema_parse_def Let_def split: if_splits option.splits)
  obtain u where u: "findByEmail X users (ld_email d) = Inr (Some u)"
    using assms d by (auto simp: login_def split: sum.splits option.splits)
  obtain user1 users1 where tz: "login_timezone X users u (ld_timezone d) now = (Inr user1, users1)"
    and gen: "generateTokens X cfg (claims_of_user user1 sid) (ld_rememberMe d) now = Inr tokens"
    and au: "au = mapToAuthenticatedUser user1"
    using assms d u by (auto simp: login_def split: if_splits prod.splits sum.splits)
  show ?thesis
    using gen au flag login_timezone_Inr [OF tz] findByEmail_Some [OF u] by auto
qed

lemma create_Inr:
  "create X users d new_id now = (Inr newUser, users1) \<Longrightarrow>
     is_uuid X (u_id newUser) \<and> is_email X (u_email newUser)"
  by (auto simp: create_def split: sum.splits prod.splits dest: validateData_row_fields)

lemma register_Inr:
  assumes "register X cfg users body rnd now = (Inr (au, tokens), users')"
  shows "\<exists>user. generateTokens X cfg (claims_of_user user (drawn_sessionId rnd)) False now = Inr tokens \<and>
                au = mapToAuthenticatedUser user \<and> is_uuid X (u_id user) \<and> is_email X (u_email user)"
proof -
  obtain d where d: "RegisterRequestSchema_parse X body = Inr d"
    using assms by (cases "RegisterRequestSchema_parse X body") (auto simp: register_def)
  have find: "findByEmail X users (rd_email d) = Inr None"
    using assms d by (auto simp: register_def split: sum.splits option.splits)
  obtain newUser users1 where
    cr: "create X users
           \<lparr>c_name = rd_name d, c_email = toLowerCase (rd_email d),
            c_password_hash = bcrypt_hash X (rd_password d) (BCRYPT_ROUNDS cfg) (drawn_salt rnd),
            c_role = rd_role d, c_timezone = rd_timezone d\<rparr> (drawn_id rnd) now
         = (Inr newUser, users1)"
    and gen: "generateTokens X cfg (claims_of_user newUser (drawn_sessionId rnd)) False now = Inr tokens"
    and au: "au = mapToAuthenticatedUser newUser"
    using assms d find by (auto simp: register_def Let_def split: prod.splits sum.splits)
  show ?thesis using gen au create_Inr [OF cr] by auto
qed

lemma refreshToken_Inr:
  assumes "refreshToken X cfg users R now = (Inr tokens, users')"
  shows "\<exists>p u. verifyRefreshPayload X cfg R (now div 1000) = Inr p \<and>
               findById X users (rt_userId p) = Inr (Some u) \<and>
               generateTokens X cfg (claims_of_user u (rt_sessionId p)) False now = Inr tokens"
  using assms
  by (auto simp: refreshToken_def refreshToken_body_def
      split: prod.splits sum.splits option.splits if_splits)


text \<open>
  Claim C4. \<^verbatim>\<open>generateTokens\<close> is private and has three callers: \<^verbatim>\<open>login\<close>, \<^verbatim>\<open>register\<close> and
  \<^verbatim>\<open>refreshToken\<close>. Whenever one of them returns a pair of tokens, the access token verifies,
  at every second before its expiry (the second of issue plus the \<^verbatim>\<open>expiresIn\<close> returned with
  it), to the claims it was issued from: the id, address, role and timezone of the user
  returned (for \<^verbatim>\<open>refreshToken\<close>, of the user the old token names) and the session id (the
  \<^verbatim>\<open>randomUUID()\<close> of the call, which is a UUID; for \<^verbatim>\<open>refreshToken\<close>, the one of the old token),
  with \<^verbatim>\<open>iat\<close> and \<^verbatim>\<open>exp\<close>. The refresh token verifies, under the refresh secret and
  \<^verbatim>\<open>RefreshTokenPayloadSchema\<close>, at every second before its expiry (the second of issue plus
  the configured time span, or 30 days for a login with \<^verbatim>\<open>rememberMe\<close>), to the user id, the
  session id and \<^verbatim>\<open>tokenVersion = 1\<close>.
\<close>

theorem issued_tokens_round_trip:
  assumes codec: "codec_ok X"
  shows
    "(login X cfg users body sid now = (Inr (user, tokens), users') \<and> is_uuid X sid \<longrightarrow>
        (\<forall>t. t < now div 1000 + expiresIn tokens \<longrightarrow>
           verifyAccessToken X cfg (accessToken tokens) t =
             Inr \<lparr>userId = au_id user, email = au_email user, role = au_role user,
                  timezone = au_timezone user, sessionId = sid,
                  iat = now div 1000, exp_at = now div 1000 + expiresIn tokens\<rparr>) \<and>
        (\<exists>b. ms X (if lr_rememberMe body = Some True then ''30d'' else JWT_REFRESH_EXPIRES_IN cfg)
               = Some b \<and>
           (\<forall>t. t < now div 1000 + b div 1000 \<longrightarrow>
              verifyRefreshPayload X cfg (refresh_token tokens) t =
                Inr \<lparr>rt_userId = au_id user, rt_sessionId = sid, tokenVersion = 1,
                     rt_iat = now div 1000, rt_exp = now div 1000 + b div 1000\<rparr>))) \<and>
     (register X cfg users registration rnd now = (Inr (user, tokens), users') \<and>
      is_uuid X (drawn_sessionId rnd) \<longrightarrow>
        (\<forall>t. t < now div 1000 + expiresIn tokens \<longrightarrow>
           verifyAccessToken X cfg (accessToken tokens) t =
             Inr \<lparr>userId = au_id user, email = au_email user, role = au_role user,
                  timezone = au_timezone user, sessionId = drawn_sessionId rnd,
                  iat = now div 1000, exp_at = now div 1000 + expiresIn tokens\<rparr>) \<and>
        (\<exists>b. ms X (JWT_REFRESH_EXPIRES_IN cfg) = Some b \<and>
           (\<forall>t. t < now div 1000 + b div 1000 \<longrightarrow>
              verifyRefreshPayload X cfg (refresh_token tokens) t =
                Inr \<lparr>rt_userId = au_id user, rt_sessionId = drawn_sessionId rnd, tokenVersion = 1,
                     rt_iat = now div 1000, rt_exp = now div 1000 + b div 1000\<rparr>))) \<and>
     (refreshToken X cfg users old now = (Inr tokens, users') \<longrightarrow>
        (\<exists>p u. verifyRefreshPayload X cfg old (now div 1000) = Inr p \<and>
           findById X users (rt_userId p) = Inr (Some u) \<and>
           (\<forall>t. t < now div 1000 + expiresIn tokens \<longrightarrow>
              verifyAccessToken X cfg (accessToken tokens) t =
                Inr \<lparr>userId = u_id u, email = u_email u, role = u_role u,
                     timezone = u_timezone u, sessionId = rt_sessionId p,
                     iat = now div 1000, exp_at = now div 1000 + expiresIn tokens\<rparr>) \<and>
           (\<exists>b. ms X (JWT_REFRESH_EXPIRES_IN cfg) = Some b \<and>
              (\<forall>t. t < now div 1000 + b div 1000 \<longrightarrow>
                 verifyRefreshPayload X cfg (refresh_token tokens) t =
                   Inr \<lparr>rt_userId = u_id u, rt_sessionId = rt_sessionId p, tokenVersion = 1,
                        rt_iat = now div 1000, rt_exp = now div 1000 + b div 1000\<rparr>))))"
proof (intro conjI impI)
  assume h: "login X cfg users body sid now = (Inr (user, tokens), users') \<and> is_uuid X sid"
  then obtain u where gen: "generateTokens X cfg (claims_of_user u sid)
        (lr_rememberMe body = Some True) now = Inr tokens"
    and au: "user = mapToAuthenticatedUser u" and f: "is_uuid X (u_id u)" "is_email X (u_email u)"
    using login_Inr [of X cfg users body sid now user tokens users'] by blast
  have c: "is_uuid X (cl_userId (claims_of_user u sid))" "is_email X (cl_email (claims_of_user u sid))"
    "is_uuid X (cl_sessionId (claims_of_user u sid))"
    using f h by (simp_all add: claims_of_user_def)
  note rt = generateTokens_round_trip [OF codec gen c]
  show "\<forall>t. t < now div 1000 + expiresIn tokens \<longrightarrow>
           verifyAccessToken X cfg (accessToken tokens) t =
             Inr \<lparr>userId = au_id user, email = au_email user, role = au_role user,
                  timezone = au_timezone user, sessionId = sid,
                  iat = now div 1000, exp_at = now div 1000 + expiresIn tokens\<rparr>"
    using rt by (simp add: au claims_of_user_def mapToAuthenticatedUser_def)
  show "\<exists>b. ms X (if lr_rememberMe body = Some True then ''30d'' else JWT_REFRESH_EXPIRES_IN cfg)
               = Some b \<and>
           (\<forall>t. t < now div 1000 + b div 1000 \<longrightarrow>
              verifyRefreshPayload X cfg (refresh_token tokens) t =
                Inr \<lparr>rt_userId = au_id user, rt_sessionId = sid, tokenVersion = 1,
                     rt_iat = now div 1000, rt_exp = now div 1000 + b div 1000\<rparr>)"
    using rt by (simp add: au claims_of_user_def mapToAuthenticatedUser_def)
next
  assume h: "register X cfg users registration rnd now = (Inr (user, tokens), users') \<and>
      is_uuid X (drawn_sessionId rnd)"
  let ?sid = "drawn_sessionId rnd"
  from h obtain u where gen: "generateTokens X cfg (claims_of_user u ?sid) False now = Inr tokens"
    and au: "user = mapToAuthenticatedUser u" and f: "is_uuid X (u_id u)" "is_email X (u_email u)"
    using register_Inr [of X cfg users registration rnd now user tokens users'] by blast
  have c: "is_uuid X (cl_userId (claims_of_user u ?sid))" "is_email X (cl_email (claims_of_user u ?sid))"
    "is_uuid X (cl_sessionId (claims_of_user u ?sid))"
    using f h by (simp_all add: claims_of_user_def)
  note rt = generateTokens_round_trip [OF codec gen c]
  show "\<forall>t. t < now div 1000 + expiresIn tokens \<longrightarrow>
           verifyAccessToken X cfg (accessToken tokens) t =
             Inr \<lparr>userId = au_id user, email = au_email user, role = au_role user,
                  timezone = au_timezone user, sessionId = drawn_sessionId rnd,
                  iat = now div 1000, exp_at = now div 1000 + expiresIn tokens\<rparr>"
    using rt by (simp add: au claims_of_user_def mapToAuthenticatedUser_def)
  show "\<exists>b. ms X (JWT_REFRESH_EXPIRES_IN cfg) = Some b \<and>
           (\<forall>t. t < now div 1000 + b div 1000 \<longrightarrow>
              verifyRefreshPayload X cfg (refresh_token tokens) t =
                Inr \<lparr>rt_userId = au_id user, rt_sessionId = drawn_sessionId rnd, tokenVersion = 1,
                     rt_iat = now div 1000, rt_exp = now div 1000 + b div 1000\<rparr>)"
    using rt by (simp add: au claims_of_user_def mapToAuthenticatedUser_def)
next
  assume h: "refreshToken X cfg users old now = (Inr tokens, users')"
  then obtain p u where v: "verifyRefreshPayload X cfg old (now div 1000) = Inr p"
    and u: "findById X users (rt_userId p) = Inr (Some u)"
    and gen: "generateTokens X cfg (claims_of_user u (rt_sessionId p)) False now = Inr tokens"
    using refreshToken_Inr by blast
  obtain j where "jws_decode X old = Some j"
    and "RefreshTokenPayloadSchema_parse X (jws_payload j) = Inr p"
    using verifyRefreshPayload_Inr [OF v] by blast
  then have sid: "is_uuid X (rt_sessionId p)" using parse_refresh_formats by blast
  have c: "is_uuid X (cl_userId (claims_of_user u (rt_sessionId p)))"
    "is_email X (cl_email (claims_of_user u (rt_sessionId p)))"
    "is_uuid X (cl_sessionId (claims_of_user u (rt_sessionId p)))"
    using findById_Some [OF u] sid by (auto simp: claims_of_user_def)
  note rt = generateTokens_round_trip [OF codec gen c]
  have "verifyRefreshPayload X cfg old (now div 1000) = Inr p \<and>
           findById X users (rt_userId p) = Inr (Some u) \<and>
           (\<forall>t. t < now div 1000 + expiresIn tokens \<longrightarrow>
              verifyAccessToken X cfg (accessToken tokens) t =
                Inr \<lparr>userId = u_id u, email = u_email u, role = u_role u,
                     timezone = u_timezone u, sessionId = rt_sessionId p,
                     iat = now div 1000, exp_at = now div 1000 + expiresIn tokens\<rparr>) \<and>
           (\<exists>b. ms X (JWT_REFRESH_EXPIRES_IN cfg) = Some b \<and>
              (\<forall>t. t < now div 1000 + b div 1000 \<longrightarrow>
                 verifyRefreshPayload X cfg (refresh_token tokens) t =
                   Inr \<lparr>rt_userId = u_id u, rt_sessionId = rt_sessionId p, tokenVersion = 1,
                        rt_iat = now div 1000, rt_exp = now div 1000 + b div 1000\<rparr>))"
    using v u rt by (simp add: claims_of_user_def)
  then show "\<exists>p u. verifyRefreshPayload X cfg old (now div 1000) = Inr p \<and>
           findById X users (rt_userId p) = Inr (Some u) \<and>
           (\<forall>t. t < now div 1000 + expiresIn tokens \<longrightarrow>
              verifyAccessToken X cfg (accessToken tokens) t =
                Inr \<lparr>userId = u_id u, email = u_email u, role = u_role u,
                     timezone = u_timezone u, sessionId = rt_sessionId p,
                     iat = now div 1000, exp_at = now div 1000 + expiresIn tokens\<rparr>) \<and>
           (\<exists>b. ms X (JWT_REFRESH_EXPIRES_IN cfg) = Some b \<and>
              (\<forall>t. t < now div 1000 + b div 1000 \<longrightarrow>
                 verifyRefreshPayload X cfg (refresh_token tokens) t =
                   Inr \<lparr>rt_userId = u_id u, rt_sessionId = rt_sessionId p, tokenVersion = 1,
                        rt_iat = now div 1000, rt_exp = now div 1000 + b div 1000\<rparr>))"
    by blast
qed


text \<open>Alice's registration under the driver that writes JSON.\<close>

lemma register_example_json:
  "\<exists>tokens stored.
     register demo_json demo_config [example_user] example_register example_drawn 1700000000000 =
       (Inr (\<lparr>au_id = ''9f1c2d3e-4b5a-4c6d-8e7f-0a1b2c3d4e5f'', au_name = ''Alice'',
              au_email = ''alice@example.com'', au_role = Developer, au_timezone = ''UTC'',
              isActive = True, emailVerified = False, lastSeen = None,
              createdAt = 1700000000000\<rparr>, tokens), stored) \<and>
     expiresIn tokens = 900 \<and> map u_email stored = [''john.doe@example.com'', ''alice@example.com'']"
proof -
  have lower: "toLowerCase ''Alice@Example.com'' = ''alice@example.com''"
    by (simp add: toLowerCase_def lower_char_def)
  have parse: "RegisterRequestSchema_parse demo_json example_register =
     Inr \<lparr>rd_name = ''Alice'', rd_email = ''Alice@Example.com'', rd_password = ''SecurePassword123!'',
          rd_role = Developer, rd_timezone = ''UTC''\<rparr>"
    by (simp add: RegisterRequestSchema_parse_def example_register_def issues_def demo_json_simps(4,5)
        demo_is_email_def)
  have find: "findByEmail demo_json [example_user] ''Alice@Example.com'' = Inr None"
    by (simp add: findByEmail_def lower example_user_def)
  let ?prefs = "BObject
         [(''notifications'',
           BObject [(''email'', BBool True), (''push'', BBool True), (''slack'', BBool False)]),
          (''theme'', BString ''light''),
          (''language'', BString ''en'')]"
  let ?row = "\<lparr>u_id = ''9f1c2d3e-4b5a-4c6d-8e7f-0a1b2c3d4e5f'', u_name = ''Alice'',
       u_email = ''alice@example.com'', password_hash = ''salt$SecurePassword123!'',
       u_role = Developer, u_timezone = ''UTC'', avatar_url = None, bio = None,
       skills = BArray [], preferences = ?prefs,
       is_active = True, email_verified = False, last_seen = None,
       created_at = 1700000000000, updated_at = 1700000000000\<rparr>"
  have ins: "insert_row demo_json [example_user]
      \<lparr>c_name = ''Alice'', c_email = ''alice@example.com'',
       c_password_hash = ''salt$SecurePassword123!'', c_role = Developer, c_timezone = ''UTC'',
       c_skills = BArray [], c_preferences = ?prefs\<rparr>
      ''9f1c2d3e-4b5a-4c6d-8e7f-0a1b2c3d4e5f'' 1700000000000 = Inr (?row, [example_user, ?row])"
    by (simp add: insert_row_def demo_json_simps(7) example_user_def Let_def)
  have drawn: "drawn_id example_drawn = ''9f1c2d3e-4b5a-4c6d-8e7f-0a1b2c3d4e5f''"
    "drawn_sessionId example_drawn = ''0b8f6a52-6f0c-4c8e-9d2a-3f1e5a7b9c01''"
    by (simp_all add: example_drawn_def)
  have hash: "bcrypt_hash demo_json ''SecurePassword123!'' (BCRYPT_ROUNDS demo_config)
      (drawn_salt example_drawn) = ''salt$SecurePassword123!''"
    by (simp add: demo_json_simps(6) demo_def example_drawn_def)
  have good: "validateData_row demo_json ?row = Inr ?row"
    by (simp add: validateData_row_def issues_def z_array_string_def demo_json_simps(4,5)
        demo_is_uuid_def demo_is_email_def UserEntity_preferences_def NotificationPreferences_def
        z_object_def z_required_def z_optional_def z_boolean_default_def z_string_default_def
        z_enum_default_def)
  have cr: "create demo_json [example_user]
      \<lparr>c_name = ''Alice'', c_email = toLowerCase ''Alice@Example.com'',
       c_password_hash = bcrypt_hash demo_json ''SecurePassword123!'' (BCRYPT_ROUNDS demo_config)
                           (drawn_salt example_drawn),
       c_role = Developer, c_timezone = ''UTC''\<rparr> (drawn_id example_drawn) 1700000000000 =
      (Inr ?row, [example_user, ?row])"
    by (simp add: create_def validateData_create_def default_create_preferences issues_def lower
        demo_json_simps(4,5) demo_is_email_def Let_def drawn hash ins good)
  have ttl: "ms demo_json (JWT_EXPIRES_IN demo_config) = Some 900000"
    "ms demo_json (if False then ''30d'' else JWT_REFRESH_EXPIRES_IN demo_config) = Some 604800000"
    using demo_ttl by (simp_all add: demo_json_simps(3))
  show ?thesis
    by (simp add: register_def parse find cr generateTokens_ok [OF demo_json_codec_ok ttl]
        mapToAuthenticatedUser_def updateLastSeen_def)
       (simp add: example_user_def)
qed


text \<open>The theorem at John Doe's login, at the refresh he makes a minute later, and at
  Alice's registration under the driver that writes JSON: each token one second before it
  expires.\<close>

theorem issued_tokens_round_trip_witness:
  "verifyAccessToken demo demo_config
     (accessToken (snd (projr (fst
        (login demo demo_config [example_user] example_login
           ''0b8f6a52-6f0c-4c8e-9d2a-3f1e5a7b9c01'' 1700000000000)))))
     1700000899 =
     Inr \<lparr>userId = ''123e4567-e89b-12d3-a456-426614174000'', email = ''john.doe@example.com'',
          role = Developer, timezone = ''America/New_York'',
          sessionId = ''0b8f6a52-6f0c-4c8e-9d2a-3f1e5a7b9c01'',
          iat = 1700000000, exp_at = 1700000900\<rparr> \<and>
   verifyRefreshPayload demo demo_config
     (refresh_token (snd (projr (fst
        (login demo demo_config [example_user] example_login
           ''0b8f6a52-6f0c-4c8e-9d2a-3f1e5a7b9c01'' 1700000000000)))))
     1700604799 =
     Inr \<lparr>rt_userId = ''123e4567-e89b-12d3-a456-426614174000'',
          rt_sessionId = ''0b8f6a52-6f0c-4c8e-9d2a-3f1e5a7b9c01'', tokenVersion = 1,
          rt_iat = 1700000000, rt_exp = 1700604800\<rparr> \<and>
   map_sum (\<lambda>e. e) sessionId
     (verifyAccessToken demo demo_config
        (accessToken (projr (fst
           (refreshToken demo demo_config [example_user]
              (demo_token (refreshTokenPayload example_claims) 1700000000 1700604800
                 ''test-refresh-secret-key'')
              1700000060000))))
        1700000959) = Inr ''0b8f6a52-6f0c-4c8e-9d2a-3f1e5a7b9c01'' \<and>
   verifyAccessToken demo_json demo_config
     (accessToken (snd (projr (fst
        (register demo_json demo_config [example_user] example_register example_drawn
           1700000000000)))))
     1700000899 =
     Inr \<lparr>userId = ''9f1c2d3e-4b5a-4c6d-8e7f-0a1b2c3d4e5f'', email = ''alice@example.com'',
          role = Developer, timezone = ''UTC'',
          sessionId = ''0b8f6a52-6f0c-4c8e-9d2a-3f1e5a7b9c01'',
          iat = 1700000000, exp_at = 1700000900\<rparr>"
proof -
  let ?sid = "''0b8f6a52-6f0c-4c8e-9d2a-3f1e5a7b9c01''"
  let ?tokens = "\<lparr>accessToken = demo_token (accessTokenPayload example_claims) 1700000000 1700000900
                      ''test-jwt-secret-key'',
         refresh_token = demo_token (refreshTokenPayload example_claims) 1700000000 1700604800
                      ''test-refresh-secret-key'',
         expiresIn = 900, tokenType = ''Bearer''\<rparr>"
  let ?R1 = "demo_token (refreshTokenPayload example_claims) 1700000000 1700604800 ''test-refresh-secret-key''"
  have sid: "is_uuid demo ?sid" by (simp add: demo_simps(4) example_formats)
  have issued: "login demo demo_config [example_user] example_login ?sid 1700000000000 =
      (Inr (mapToAuthenticatedUser example_user, ?tokens),
       [example_user\<lparr>last_seen := Some 1700000000000\<rparr>]) \<and> is_uuid demo ?sid"
    using login_example sid by simp
  note T = issued_tokens_round_trip [OF demo_codec_ok,
      where cfg = demo_config and users = "[example_user]" and body = example_login and sid = ?sid
        and now = 1700000000000 and user = "mapToAuthenticatedUser example_user"
        and tokens = ?tokens and users' = "[example_user\<lparr>last_seen := Some 1700000000000\<rparr>]"
        and registration = example_register and rnd = example_drawn and old = "[]"]
  have access: "\<forall>t. t < 1700000000000 div 1000 + expiresIn ?tokens \<longrightarrow>
           verifyAccessToken demo demo_config (accessToken ?tokens) t =
             Inr \<lparr>userId = au_id (mapToAuthenticatedUser example_user),
                  email = au_email (mapToAuthenticatedUser example_user),
                  role = au_role (mapToAuthenticatedUser example_user),
                  timezone = au_timezone (mapToAuthenticatedUser example_user), sessionId = ?sid,
                  iat = 1700000000000 div 1000,
                  exp_at = 1700000000000 div 1000 + expiresIn ?tokens\<rparr>"
    using T issued by blast
  obtain b where b: "ms demo (if lr_rememberMe example_login = Some True then ''30d''
                              else JWT_REFRESH_EXPIRES_IN demo_config) = Some b"
    and refresh: "\<forall>t. t < 1700000000000 div 1000 + b div 1000 \<longrightarrow>
              verifyRefreshPayload demo demo_config (refresh_token ?tokens) t =
                Inr \<lparr>rt_userId = au_id (mapToAuthenticatedUser example_user), rt_sessionId = ?sid,
                     tokenVersion = 1, rt_iat = 1700000000000 div 1000,
                     rt_exp = 1700000000000 div 1000 + b div 1000\<rparr>"
    using T issued by blast
  have b': "b = 604800000"
    using b demo_ttl(2) by (simp add: example_login_def)
  have w1: "verifyAccessToken demo demo_config (accessToken ?tokens) 1700000899 =
     Inr \<lparr>userId = ''123e4567-e89b-12d3-a456-426614174000'', email = ''john.doe@example.com'',
          role = Developer, timezone = ''America/New_York'', sessionId = ?sid,
          iat = 1700000000, exp_at = 1700000900\<rparr>"
    using access [rule_format, of 1700000899]
    by (simp add: mapToAuthenticatedUser_def example_user_def)
  have w2: "verifyRefreshPayload demo demo_config (refresh_token ?tokens) 1700604799 =
     Inr \<lparr>rt_userId = ''123e4567-e89b-12d3-a456-426614174000'', rt_sessionId = ?sid,
          tokenVersion = 1, rt_iat = 1700000000, rt_exp = 1700604800\<rparr>"
    using refresh [rule_format, of 1700604799]
    by (simp add: b' mapToAuthenticatedUser_def example_user_def)
  have a: "ms demo (JWT_EXPIRES_IN demo_config) = Some 900000"
    and r: "ms demo (JWT_REFRESH_EXPIRES_IN demo_config) = Some 604800000"
    using demo_ttl by simp_all
  have valid: "verifyRefreshPayload demo demo_config ?R1 (1700000060000 div 1000) =
      Inr \<lparr>rt_userId = ''123e4567-e89b-12d3-a456-426614174000'', rt_sessionId = ?sid,
           tokenVersion = 1, rt_iat = 1700000000, rt_exp = 1700604800\<rparr>"
    by (simp add: example_refresh_valid)
  have user: "findById demo [example_user]
      (rt_userId \<lparr>rt_userId = ''123e4567-e89b-12d3-a456-426614174000'', rt_sessionId = ?sid,
           tokenVersion = 1, rt_iat = 1700000000, rt_exp = 1700604800\<rparr>) = Inr (Some example_user)"
    by (simp add: example_findById)
  have active: "is_active example_user" by (simp add: example_user_def)
  note step = refresh_step [OF demo_codec_ok a r valid user active]
  let ?t2 = "projr (fst (refreshToken demo demo_config [example_user] ?R1 1700000060000))"
  have refreshed: "refreshToken demo demo_config [example_user] ?R1 1700000060000 =
      (Inr ?t2, updateLastSeen [example_user] (u_id example_user) 1700000060000)"
    by (simp add: step)
  have ttl: "expiresIn ?t2 = 900" by (simp add: step)
  obtain p u where p: "verifyRefreshPayload demo demo_config ?R1 (1700000060000 div 1000) = Inr p"
    and "findById demo [example_user] (rt_userId p) = Inr (Some u)"
    and again: "\<forall>t. t < 1700000060000 div 1000 + expiresIn ?t2 \<longrightarrow>
              verifyAccessToken demo demo_config (accessToken ?t2) t =
                Inr \<lparr>userId = u_id u, email = u_email u, role = u_role u,
                     timezone = u_timezone u, sessionId = rt_sessionId p,
                     iat = 1700000060000 div 1000,
                     exp_at = 1700000060000 div 1000 + expiresIn ?t2\<rparr>"
    using issued_tokens_round_trip [OF demo_codec_ok,
      where cfg = demo_config and users = "[example_user]" and body = example_login and sid = ?sid
        and now = 1700000060000 and user = "mapToAuthenticatedUser example_user"
        and tokens = ?t2 and users' = "updateLastSeen [example_user] (u_id example_user) 1700000060000"
        and registration = example_register and rnd = example_drawn and old = ?R1] refreshed
    by blast
  have w3: "map_sum (\<lambda>e. e) sessionId
      (verifyAccessToken demo demo_config (accessToken ?t2) 1700000959) = Inr ?sid"
    using again [rule_format, of 1700000959] p valid by (simp add: ttl)
  let ?alice = "\<lparr>au_id = ''9f1c2d3e-4b5a-4c6d-8e7f-0a1b2c3d4e5f'', au_name = ''Alice'',
              au_email = ''alice@example.com'', au_role = Developer, au_timezone = ''UTC'',
              isActive = True, emailVerified = False, lastSeen = None,
              createdAt = 1700000000000\<rparr>"
  obtain tokens stored where
    registered: "register demo_json demo_config [example_user] example_register example_drawn
        1700000000000 = (Inr (?alice, tokens), stored)"
    and ttl': "expiresIn tokens = 900"
    using register_example_json by blast
  have drawn: "drawn_sessionId example_drawn = ?sid" by (simp add: example_drawn_def)
  have sid': "is_uuid demo_json (drawn_sessionId example_drawn)"
    by (simp add: drawn demo_json_simps(4) example_formats)
  have alice: "\<forall>t. t < 1700000000000 div 1000 + expiresIn tokens \<longrightarrow>
           verifyAccessToken demo_json demo_config (accessToken tokens) t =
             Inr \<lparr>userId = au_id ?alice, email = au_email ?alice, role = au_role ?alice,
                  timezone = au_timezone ?alice, sessionId = drawn_sessionId example_drawn,
                  iat = 1700000000000 div 1000,
                  exp_at = 1700000000000 div 1000 + expiresIn tokens\<rparr>"
    using issued_tokens_round_trip [OF demo_json_codec_ok,
      where cfg = demo_config and users = "[example_user]" and body = example_login and sid = ?sid
        and now = 1700000000000 and user = ?alice and tokens = tokens and users' = stored
        and registration = example_register and rnd = example_drawn and old = "[]"]
      registered sid'
    by blast
  have w4: "verifyAccessToken demo_json demo_config (accessToken tokens) 1700000899 =
     Inr \<lparr>userId = ''9f1c2d3e-4b5a-4c6d-8e7f-0a1b2c3d4e5f'', email = ''alice@example.com'',
          role = Developer, timezone = ''UTC'', sessionId = ?sid,
          iat = 1700000000, exp_at = 1700000900\<rparr>"
    using alice [rule_format, of 1700000899] by (simp add: ttl' drawn)
  show ?thesis
    using w1 w2 w3 w4 by (simp add: login_example registered)
qed

section \<open>Failed logins\<close>
















section \<open>Registration and the address already registered\<close>

lemma RegisterRequestSchema_parse_Inr:
  "RegisterRequestSchema_parse X body = Inr d \<Longrightarrow>
     rd_name d = rr_name body \<and> rd_email d = rr_email body \<and> rd_password d = rr_password body \<and>
     1 \<le> length (rr_name body) \<and> length (rr_name body) \<le> 100 \<and>
     is_email X (rr_email body) \<and> length (rr_email body) \<le> 254"
  by (auto simp: RegisterRequestSchema_parse_def issues_def Let_def split: if_splits)

lemma RegisterRequestSchema_parse_again:
  "RegisterRequestSchema_parse X body = Inr d \<Longrightarrow>
   RegisterRequestSchema_parse X (register_request_of d) = Inr d"
  by (auto simp: RegisterRequestSchema_parse_def register_request_of_def issues_def Let_def
      nativeEnum_role_string split: if_splits option.splits)

lemma register_handler_of_register:
  assumes "RegisterRequestSchema_parse X body = Inr d"
  shows "register_handler X cfg users body rnd now =
     (case register X cfg users body rnd now of
        (Inl e, users') \<Rightarrow> (register_error_reply e now, users')
      | (Inr result, users') \<Rightarrow> (Sent 201 ''User registered successfully'' result now, users'))"
proof -
  have "register X cfg users (register_request_of d) rnd now = register X cfg users body rnd now"
    by (simp add: register_def assms RegisterRequestSchema_parse_again [OF assms])
  then show ?thesis by (simp add: register_handler_def assms)
qed

text \<open>\<^verbatim>\<open>emailExists\<close> sees every row, active or not; \<^verbatim>\<open>register\<close> checks with \<^verbatim>\<open>findByEmail\<close>, which
  sees the active ones.\<close>

lemma emailExists_iff:
  "emailExists users address \<longleftrightarrow> (\<exists>u\<in>set users. u_email u = toLowerCase address)"
  by (auto simp: emailExists_def filter_empty_conv)

lemma register_error_reply_409:
  "register_error_reply (Error ''Email already registered'') now =
     Failed 409 \<lparr>code = ''EMAIL_EXISTS'', message = ''An account with this email already exists'',
                 timestamp = now, more_fields = NoExtra\<rparr>"
  by (simp add: register_error_reply_def)

text \<open>
  The first half of claim C9 holds of the code: when \<^verbatim>\<open>findByEmail\<close> gives an active row for
  the submitted address, in whatever case it was submitted, \<^verbatim>\<open>register\<close> throws
  \<^verbatim>\<open>Error('Email already registered')\<close>, and the route, once the rate limiter and
  \<^verbatim>\<open>validateTimezone\<close> have let the request through, answers 409 \<^verbatim>\<open>EMAIL_EXISTS\<close>; the table is
  unchanged.
\<close>

lemma register_active_duplicate:
  assumes valid: "RegisterRequestSchema_parse X body = Inr d"
    and found: "findByEmail X users (rr_email body) = Inr (Some u)"
  shows "register X cfg users body rnd now = (Inl (Error ''Email already registered''), users)"
    and "u_email u = toLowerCase (rr_email body) \<and> is_active u"
    and "authRateLimit 5 (15 * 60 * 1000) attempts
            (clientId_of (req_ip req) (req_remoteAddress req)) now = (Next (), attempts') \<Longrightarrow>
         validateTimezone X (rr_timezone body) (query_timezone req) now = Next () \<Longrightarrow>
         post_register X cfg attempts users req body rnd now =
           (Failed 409 \<lparr>code = ''EMAIL_EXISTS'',
                        message = ''An account with this email already exists'',
                        timestamp = now, more_fields = NoExtra\<rparr>, users, attempts')"
proof -
  show r: "register X cfg users body rnd now = (Inl (Error ''Email already registered''), users)"
    using valid found RegisterRequestSchema_parse_Inr [OF valid] by (simp add: register_def)
  show "u_email u = toLowerCase (rr_email body) \<and> is_active u"
    using findByEmail_Some [OF found] by simp
  show "post_register X cfg attempts users req body rnd now =
           (Failed 409 \<lparr>code = ''EMAIL_EXISTS'',
                        message = ''An account with this email already exists'',
                        timestamp = now, more_fields = NoExtra\<rparr>, users, attempts')"
    if "authRateLimit 5 (15 * 60 * 1000) attempts
            (clientId_of (req_ip req) (req_remoteAddress req)) now = (Next (), attempts')"
      "validateTimezone X (rr_timezone body) (query_timezone req) now = Next ()"
    using that
    by (simp add: post_register_def register_handler_of_register [OF valid] r
        register_error_reply_409)
qed

lemma example_register_parse:
  "RegisterRequestSchema_parse demo example_register =
     Inr \<lparr>rd_name = ''Alice'', rd_email = ''Alice@Example.com'', rd_password = ''SecurePassword123!'',
          rd_role = Developer, rd_timezone = ''UTC''\<rparr>"
  "RegisterRequestSchema_parse demo (example_register\<lparr>rr_email := ''John.Doe@Example.com''\<rparr>) =
     Inr \<lparr>rd_name = ''Alice'', rd_email = ''John.Doe@Example.com'',
          rd_password = ''SecurePassword123!'', rd_role = Developer, rd_timezone = ''UTC''\<rparr>"
  by (simp_all add: RegisterRequestSchema_parse_def example_register_def issues_def demo_simps(4,5)
      example_formats demo_is_email_def)

lemma example_register_reaches:
  "post_register demo demo_config Map.empty users example_request body rnd now =
     (case validateTimezone demo (rr_timezone body) (query_timezone example_request) now of
        Respond status b \<Rightarrow>
          (Failed status b, users,
           snd (authRateLimit 5 (15 * 60 * 1000) Map.empty
                  (clientId_of (req_ip example_request) (req_remoteAddress example_request)) now))
      | Next _ \<Rightarrow>
          (case register_handler demo demo_config users body rnd now of
             (r, users') \<Rightarrow>
               (r, users',
                snd (authRateLimit 5 (15 * 60 * 1000) Map.empty
                       (clientId_of (req_ip example_request) (req_remoteAddress example_request))
                       now))))"
  by (simp add: post_register_def authRateLimit_def sweep_def split: handled.splits prod.splits)


text \<open>
  Claim C9 at an address held by a deactivated account. John Doe's row is in the table with
  \<^verbatim>\<open>is_active = false\<close>; a registration of \<^verbatim>\<open>John.Doe@Example.com\<close>, the first request of its
  client, with a valid body and no time zone. \<^verbatim>\<open>findByEmail\<close> finds no active row for the
  address (while \<^verbatim>\<open>emailExists\<close>, which the repository offers for this check, does report
  the address as registered), so \<^verbatim>\<open>register\<close> goes on to insert; the insert violates
  \<^verbatim>\<open>email ... UNIQUE\<close>, and the route answers 500 \<^verbatim>\<open>REGISTRATION_FAILED\<close>: neither the
  \<^verbatim>\<open>EMAIL_EXISTS\<close> of an address already registered nor the success the claim gives every
  address without an active record. Nothing is persisted.
\<close>

theorem register_inactive_duplicate:
  "findByEmail demo [example_user\<lparr>is_active := False\<rparr>] ''John.Doe@Example.com'' = Inr None \<and>
   emailExists [example_user\<lparr>is_active := False\<rparr>] ''John.Doe@Example.com'' \<and>
   fst (register demo demo_config [example_user\<lparr>is_active := False\<rparr>]
          (example_register\<lparr>rr_email := ''John.Doe@Example.com''\<rparr>) example_drawn 1700000000000) =
     Inl (Error ''Database operation failed: duplicate key value violates unique constraint'') \<and>
   fst (post_register demo demo_config Map.empty [example_user\<lparr>is_active := False\<rparr>] example_request
          (example_register\<lparr>rr_email := ''John.Doe@Example.com''\<rparr>) example_drawn 1700000000000) =
     Failed 500 \<lparr>code = ''REGISTRATION_FAILED'', message = ''Failed to register user'',
                 timestamp = 1700000000000, more_fields = NoExtra\<rparr> \<and>
   fst (snd (post_register demo demo_config Map.empty [example_user\<lparr>is_active := False\<rparr>]
          example_request (example_register\<lparr>rr_email := ''John.Doe@Example.com''\<rparr>) example_drawn
          1700000000000)) = [example_user\<lparr>is_active := False\<rparr>]"
proof -
  have find: "findByEmail demo [example_user\<lparr>is_active := False\<rparr>] ''John.Doe@Example.com'' = Inr None"
    by (simp add: findByEmail_def)
  have ex: "emailExists [example_user\<lparr>is_active := False\<rparr>] ''John.Doe@Example.com''"
    by (simp add: emailExists_def example_formats example_user_def)
  have cr: "create demo [example_user\<lparr>is_active := False\<rparr>]
      \<lparr>c_name = ''Alice'', c_email = toLowerCase ''John.Doe@Example.com'',
       c_password_hash = bcrypt_hash demo ''SecurePassword123!'' (BCRYPT_ROUNDS demo_config)
                           (drawn_salt example_drawn),
       c_role = Developer, c_timezone = ''UTC''\<rparr> (drawn_id example_drawn) 1700000000000 =
      (Inl (Error ''Database operation failed: duplicate key value violates unique constraint''),
       [example_user\<lparr>is_active := False\<rparr>])"
    by (simp add: create_def validateData_create_def default_create_preferences issues_def
        insert_row_def example_formats demo_simps(4,5) demo_def demo_pg_jsonb_def Let_def)
       (simp add: example_user_def example_drawn_def)
  have reg: "register demo demo_config [example_user\<lparr>is_active := False\<rparr>]
      (example_register\<lparr>rr_email := ''John.Doe@Example.com''\<rparr>) example_drawn 1700000000000 =
      (Inl (Error ''Database operation failed: duplicate key value violates unique constraint''),
       [example_user\<lparr>is_active := False\<rparr>])"
    by (simp add: register_def example_register_parse find cr)
  have tz: "validateTimezone demo (rr_timezone example_register)
      (query_timezone example_request) 1700000000000 = Next ()"
    by (simp add: validateTimezone_def example_register_def example_request_def truthy_def)
  show ?thesis
    by (simp add: find ex reg example_register_reaches tz
        register_handler_of_register [OF example_register_parse(2)] register_error_reply_def)
qed

text \<open>
  A registration of a new address, under the driver of the instance. \<^verbatim>\<open>CreateUserSchema\<close>
  gives \<^verbatim>\<open>skills\<close> its default \<^verbatim>\<open>[]\<close>, the driver writes it as \<^verbatim>\<open>{}\<close>, the column holds the empty
  object, and \<^verbatim>\<open>UserEntitySchema\<close>, which wants an array, rejects the row the insert returns:
  \<^verbatim>\<open>create\<close> throws after the row is in the table, and the route answers 500
  \<^verbatim>\<open>REGISTRATION_FAILED\<close> with Alice's row persisted under \<^verbatim>\<open>alice@example.com\<close>.
\<close>

lemma register_row_rejected_after_insert:
  "fst (post_register demo demo_config Map.empty [example_user] example_request
          example_register example_drawn 1700000000000) =
     Failed 500 \<lparr>code = ''REGISTRATION_FAILED'', message = ''Failed to register user'',
                 timestamp = 1700000000000, more_fields = NoExtra\<rparr> \<and>
   map (\<lambda>u. (u_email u, skills u))
     (fst (snd (post_register demo demo_config Map.empty [example_user] example_request
                  example_register example_drawn 1700000000000))) =
     [(''john.doe@example.com'', BArray []), (''alice@example.com'', BObject [])]"
proof -
  have lower: "toLowerCase ''Alice@Example.com'' = ''alice@example.com''"
    by (simp add: toLowerCase_def lower_char_def)
  have find: "findByEmail demo [example_user] ''Alice@Example.com'' = Inr None"
    by (simp add: findByEmail_def lower example_user_def)
  let ?row = "\<lparr>u_id = ''9f1c2d3e-4b5a-4c6d-8e7f-0a1b2c3d4e5f'', u_name = ''Alice'',
       u_email = ''alice@example.com'', password_hash = ''salt$SecurePassword123!'',
       u_role = Developer, u_timezone = ''UTC'', avatar_url = None, bio = None,
       skills = BObject [],
       preferences = BObject
         [(''notifications'',
           BObject [(''email'', BBool True), (''push'', BBool True), (''slack'', BBool False)]),
          (''theme'', BString ''light''),
          (''language'', BString ''en'')],
       is_active = True, email_verified = False, last_seen = None,
       created_at = 1700000000000, updated_at = 1700000000000\<rparr>"
  have ins: "insert_row demo [example_user]
      \<lparr>c_name = ''Alice'', c_email = ''alice@example.com'',
       c_password_hash = ''salt$SecurePassword123!'', c_role = Developer, c_timezone = ''UTC'',
       c_skills = BArray [],
       c_preferences = BObject
         [(''notifications'',
           BObject [(''email'', BBool True), (''push'', BBool True), (''slack'', BBool False)]),
          (''theme'', BString ''light''),
          (''language'', BString ''en'')]\<rparr>
      ''9f1c2d3e-4b5a-4c6d-8e7f-0a1b2c3d4e5f'' 1700000000000 = Inr (?row, [example_user, ?row])"
    by (simp add: insert_row_def demo_def demo_pg_jsonb_def example_user_def Let_def)
  have drawn: "drawn_id example_drawn = ''9f1c2d3e-4b5a-4c6d-8e7f-0a1b2c3d4e5f''"
    by (simp add: example_drawn_def)
  have hash: "bcrypt_hash demo ''SecurePassword123!'' (BCRYPT_ROUNDS demo_config)
      (drawn_salt example_drawn) = ''salt$SecurePassword123!''"
    by (simp add: demo_def example_drawn_def)
  have bad: "validateData_row demo ?row = Inl (Error ''Validation failed: skills'')"
    by (simp add: validateData_row_def issues_def z_array_string_def demo_simps(4,5)
        demo_is_uuid_def demo_is_email_def UserEntity_preferences_def NotificationPreferences_def
        z_object_def z_required_def z_optional_def z_boolean_default_def z_string_default_def
        z_enum_default_def)
  have cr: "create demo [example_user]
      \<lparr>c_name = ''Alice'', c_email = toLowerCase ''Alice@Example.com'',
       c_password_hash = bcrypt_hash demo ''SecurePassword123!'' (BCRYPT_ROUNDS demo_config)
                           (drawn_salt example_drawn),
       c_role = Developer, c_timezone = ''UTC''\<rparr> (drawn_id example_drawn) 1700000000000 =
      (Inl (Error ''Validation failed: skills''), [example_user, ?row])"
    by (simp add: create_def validateData_create_def default_create_preferences issues_def lower
        demo_simps(4,5) demo_is_email_def Let_def drawn hash ins bad)
  have reg: "register demo demo_config [example_user] example_register example_drawn 1700000000000 =
      (Inl (Error ''Validation failed: skills''), [example_user, ?row])"
    by (simp add: register_def example_register_parse find cr)
  have tz: "validateTimezone demo (rr_timezone example_register)
      (query_timezone example_request) 1700000000000 = Next ()"
    by (simp add: validateTimezone_def example_register_def example_request_def truthy_def)
  show ?thesis
    by (simp add: reg example_register_reaches tz
        register_handler_of_register [OF example_register_parse(1)] register_error_reply_def)
       (simp add: example_user_def)
qed

end
